theory Spec2Isabelle
  imports Complex_Main "HOL-Library.AList"
begin

section \<open>Python values, symbolic tensors and the object store\<close>

text \<open>
  The development embeds \<^verbatim>\<open>pymc_extras/statespace/models/structural.py\<close>.
  Exceptions are values: every \<^verbatim>\<open>raise\<close> of the source is an \<open>Inl\<close> branch.
  The string carried by an exception abbreviates the message of the source.
\<close>

datatype error =
    ValueError string
  | NotImplementedError string
  | ZeroDivisionError
  | IndexError
  | KeyError
  | TypeError

text \<open>
  A shape as \<^verbatim>\<open>pt.tensor\<close> receives it: a tuple whose entries are integers or
  \<^verbatim>\<open>None\<close>; the empty tuple is a scalar.
\<close>

type_synonym shape = "nat option list"

text \<open>
  The indices used by the source when it writes into a matrix of the representation:
  \<^verbatim>\<open>:\<close>, an integer, \<^verbatim>\<open>slice(a, b, step)\<close> and an integer array.
\<close>

datatype index = Full | Pos nat | Range nat nat nat | Fancy "nat list"

text \<open>
  The source builds a symbolic graph; nothing is computed numerically while a model is
  assembled. A tensor is therefore a term: a placeholder created by \<^verbatim>\<open>pt.tensor\<close>,
  a numeric array of numpy, \<^verbatim>\<open>pt.zeros\<close>, the matrix a fresh
  \<^verbatim>\<open>PytensorRepresentation\<close> holds under a name (\<open>Initial\<close>: that class is not
  part of the file, so its initial matrices are left uninterpreted), an indexed
  assignment, or any other operator applied to arguments.
\<close>

datatype tensor =
    Placeholder string shape string
  | Scalar real
  | Vec "real list"
  | Mat "real list list"
  | Zeros "nat list"
  | Initial string nat nat nat
  | SetItem tensor "index list" tensor
  | Op string "tensor list"

text \<open>The values stored in the metadata dictionaries. Dictionaries keep insertion order.\<close>

datatype pyval =
    PNone
  | PInt int
  | PStr string
  | PTuple "pyval list"
  | PList "pyval list"
  | PDict "(string \<times> pyval) list"
  | PVar tensor

type_synonym dict = "(string \<times> pyval) list"

text \<open>One entry of a component-info table (the misspelt key \<^verbatim>\<open>k_enodg\<close> is the source's).\<close>

record comp_info =
  ci_k_states :: nat
  ci_k_enodg :: nat
  ci_k_posdef :: nat
  ci_combine_hidden_states :: bool
  ci_obs_state_idx :: "real list option"

type_synonym info_dict = "(string \<times> comp_info) list"

text \<open>
  Lists and dictionaries are mutable objects that several owners may share, so they live
  in a store and are held by reference. The store has one area per kind of object; a
  reference is an index into its area, and allocation appends.
\<close>

type_synonym ref = nat

record store =
  lists :: "string list list"
  dicts :: "dict list"
  infos :: "info_dict list"

definition alloc_list :: "string list \<Rightarrow> store \<Rightarrow> ref \<times> store" where
  "alloc_list xs h = (length (lists h), h\<lparr>lists := lists h @ [xs]\<rparr>)"

definition alloc_dict :: "dict \<Rightarrow> store \<Rightarrow> ref \<times> store" where
  "alloc_dict d h = (length (dicts h), h\<lparr>dicts := dicts h @ [d]\<rparr>)"

definition alloc_info :: "info_dict \<Rightarrow> store \<Rightarrow> ref \<times> store" where
  "alloc_info d h = (length (infos h), h\<lparr>infos := infos h @ [d]\<rparr>)"

definition get_list :: "store \<Rightarrow> ref \<Rightarrow> string list" where
  "get_list h r = lists h ! r"

definition get_dict :: "store \<Rightarrow> ref \<Rightarrow> dict" where
  "get_dict h r = dicts h ! r"

definition get_info :: "store \<Rightarrow> ref \<Rightarrow> info_dict" where
  "get_info h r = infos h ! r"

definition set_list :: "ref \<Rightarrow> string list \<Rightarrow> store \<Rightarrow> store" where
  "set_list r xs h = h\<lparr>lists := (lists h)[r := xs]\<rparr>"

definition set_dict :: "ref \<Rightarrow> dict \<Rightarrow> store \<Rightarrow> store" where
  "set_dict r d h = h\<lparr>dicts := (dicts h)[r := d]\<rparr>"

text \<open>\<^verbatim>\<open>x.copy()\<close>: a new object with the same entries.\<close>

definition copy_list :: "ref \<Rightarrow> store \<Rightarrow> ref \<times> store" where
  "copy_list r h = alloc_list (get_list h r) h"

definition copy_dict :: "ref \<Rightarrow> store \<Rightarrow> ref \<times> store" where
  "copy_dict r h = alloc_dict (get_dict h r) h"

definition copy_info :: "ref \<Rightarrow> store \<Rightarrow> ref \<times> store" where
  "copy_info r h = alloc_info (get_info h r) h"

text \<open>\<^verbatim>\<open>d[k] = v\<close> and \<^verbatim>\<open>d.update(other)\<close> on an insertion-ordered dictionary.\<close>

definition dict_keys :: "(string \<times> 'v) list \<Rightarrow> string list" where
  "dict_keys d = map fst d"

definition dict_update :: "(string \<times> 'v) list \<Rightarrow> (string \<times> 'v) list \<Rightarrow> (string \<times> 'v) list" where
  "dict_update d other = fold (\<lambda>(k, v). AList.update k v) other d"

text \<open>The store \<open>h\<close> with further objects allocated after those it holds.\<close>

definition extended :: "store \<Rightarrow> string list list \<Rightarrow> dict list \<Rightarrow> info_dict list \<Rightarrow> store" where
  "extended h ls ds is = \<lparr>lists = lists h @ ls, dicts = dicts h @ ds, infos = infos h @ is\<rparr>"

section \<open>The state-space representation\<close>

text \<open>
  The names of the nine system matrices, in the order in which
  \<^verbatim>\<open>_combine_statespace_representations\<close> unpacks them
  (\<^verbatim>\<open>x0, P0, c, d, T, Z, R, H, Q\<close>) and under the keywords with which it passes them on.
\<close>

definition LONG_MATRIX_NAMES :: "string list" where
  "LONG_MATRIX_NAMES =
     [''initial_state'', ''initial_state_cov'', ''state_intercept'', ''obs_intercept'',
      ''transition'', ''design'', ''selection'', ''obs_cov'', ''state_cov'']"

text \<open>
  What the file imports from modules that are not part of it: the default float type,
  the names of the element types the tensor library knows, two dimension names, the table of derivative names, the default shapes of a fresh
  representation, and \<^verbatim>\<open>make_default_coords\<close>, which reads the name and the name lists
  the model under construction already has. Every result below holds for all values
  of these.
\<close>

record externals =
  floatX :: string
  tensor_dtypes :: "string list"
  ALL_STATE_DIM :: string
  ALL_STATE_AUX_DIM :: string
  POSITION_DERIVATIVE_NAMES :: "string list"
  default_shapes :: "nat \<Rightarrow> nat \<Rightarrow> nat \<Rightarrow> (string \<times> nat list) list"
  make_default_coords :: "string \<Rightarrow> string list \<Rightarrow> string list \<Rightarrow> string list \<Rightarrow> string list \<Rightarrow> dict \<Rightarrow> dict"

record representation =
  r_k_endog :: nat
  r_k_states :: nat
  r_k_posdef :: nat
  shapes :: "(string \<times> nat list) list"
  matrices :: "(string \<times> tensor) list"

text \<open>
  \<^verbatim>\<open>PytensorRepresentation(k_endog, k_states, k_posdef, **matrices)\<close>: a matrix given by
  keyword is stored, every other one is the class's initial matrix.
\<close>

definition PytensorRepresentation ::
  "externals \<Rightarrow> nat \<Rightarrow> nat \<Rightarrow> nat \<Rightarrow> (string \<times> tensor) list \<Rightarrow> representation" where
  "PytensorRepresentation ext ke ks kp given =
     \<lparr>r_k_endog = ke, r_k_states = ks, r_k_posdef = kp,
      shapes = default_shapes ext ke ks kp,
      matrices = map (\<lambda>n. (n, case map_of given n of
                                  Some t \<Rightarrow> t
                                | None \<Rightarrow> Initial n ke ks kp)) LONG_MATRIX_NAMES\<rparr>"

text \<open>\<^verbatim>\<open>ssm[name]\<close>, \<^verbatim>\<open>ssm[name] = X\<close> (also an assignment through full slices,
  \<^verbatim>\<open>ssm[name, :, :] = X\<close>, which overwrites every entry: the matrix becomes \<open>X\<close>),
  \<^verbatim>\<open>ssm.shapes[name] = shape\<close> and \<^verbatim>\<open>ssm[name, idx] = X\<close>.\<close>

definition ssm_get :: "representation \<Rightarrow> string \<Rightarrow> tensor" where
  "ssm_get r n = (case map_of (matrices r) n of Some t \<Rightarrow> t | None \<Rightarrow> Op ''missing'' [])"

definition ssm_set :: "string \<Rightarrow> tensor \<Rightarrow> representation \<Rightarrow> representation" where
  "ssm_set n t r = r\<lparr>matrices := AList.update n t (matrices r)\<rparr>"

definition shapes_set :: "string \<Rightarrow> nat list \<Rightarrow> representation \<Rightarrow> representation" where
  "shapes_set n shp r = r\<lparr>shapes := AList.update n shp (shapes r)\<rparr>"

definition ssm_set_at :: "string \<Rightarrow> index list \<Rightarrow> tensor \<Rightarrow> representation \<Rightarrow> representation" where
  "ssm_set_at n idx t r = ssm_set n (SetItem (ssm_get r n) idx t) r"

section \<open>Components\<close>

text \<open>
  A component holds its sizes by value and its name lists, metadata dictionaries,
  placeholder registries and component-info table by reference. The sizes are natural
  numbers: the representation allocates arrays of these sizes.
\<close>

record component =
  name :: string
  k_endog :: nat
  k_states :: nat
  k_posdef :: nat
  measurement_error :: bool
  state_names :: ref
  data_names :: ref
  shock_names :: ref
  param_names :: ref
  exog_names :: ref
  needs_exog_data :: bool
  coords :: ref
  param_dims :: ref
  param_info :: ref
  data_info :: ref
  param_counts :: ref
  ssm :: representation
  name_to_variable :: ref
  name_to_data :: ref
  component_info :: ref

text \<open>Every reference of the component points into the store.\<close>

definition valid_component :: "store \<Rightarrow> component \<Rightarrow> bool" where
  "valid_component h c \<longleftrightarrow>
     state_names c < length (lists h) \<and> data_names c < length (lists h) \<and>
     shock_names c < length (lists h) \<and> param_names c < length (lists h) \<and>
     exog_names c < length (lists h) \<and>
     coords c < length (dicts h) \<and> param_dims c < length (dicts h) \<and>
     param_info c < length (dicts h) \<and> data_info c < length (dicts h) \<and>
     param_counts c < length (dicts h) \<and>
     name_to_variable c < length (dicts h) \<and> name_to_data c < length (dicts h) \<and>
     component_info c < length (infos h)"

text \<open>
  The dictionaries of the component are seven separate objects, and its list of parameter
  names is not shared with another of its name lists. Every constructor of the file
  creates these objects one by one, and so does composition.
\<close>

definition separate_objects :: "component \<Rightarrow> bool" where
  "separate_objects c \<longleftrightarrow>
     distinct [coords c, param_dims c, param_info c, data_info c, param_counts c,
               name_to_variable c, name_to_data c] \<and>
     param_names c \<notin> {state_names c, data_names c, shock_names c, exog_names c}"

text \<open>The objects of the component hold the same entries in both stores.\<close>

definition same_objects :: "store \<Rightarrow> store \<Rightarrow> component \<Rightarrow> bool" where
  "same_objects h h' c \<longleftrightarrow>
     get_list h' (state_names c) = get_list h (state_names c) \<and>
     get_list h' (data_names c) = get_list h (data_names c) \<and>
     get_list h' (shock_names c) = get_list h (shock_names c) \<and>
     get_list h' (param_names c) = get_list h (param_names c) \<and>
     get_list h' (exog_names c) = get_list h (exog_names c) \<and>
     get_dict h' (coords c) = get_dict h (coords c) \<and>
     get_dict h' (param_dims c) = get_dict h (param_dims c) \<and>
     get_dict h' (param_info c) = get_dict h (param_info c) \<and>
     get_dict h' (data_info c) = get_dict h (data_info c) \<and>
     get_dict h' (param_counts c) = get_dict h (param_counts c) \<and>
     get_dict h' (name_to_variable c) = get_dict h (name_to_variable c) \<and>
     get_dict h' (name_to_data c) = get_dict h (name_to_data c) \<and>
     get_info h' (component_info c) = get_info h (component_info c)"

text \<open>None of the objects of the component exists in the store: all are allocated later.\<close>

definition new_objects :: "store \<Rightarrow> component \<Rightarrow> bool" where
  "new_objects h c \<longleftrightarrow>
     length (lists h) \<le> state_names c \<and> length (lists h) \<le> data_names c \<and>
     length (lists h) \<le> shock_names c \<and> length (lists h) \<le> param_names c \<and>
     length (lists h) \<le> exog_names c \<and>
     length (dicts h) \<le> coords c \<and> length (dicts h) \<le> param_dims c \<and>
     length (dicts h) \<le> param_info c \<and> length (dicts h) \<le> data_info c \<and>
     length (dicts h) \<le> param_counts c \<and>
     length (dicts h) \<le> name_to_variable c \<and> length (dicts h) \<le> name_to_data c \<and>
     length (infos h) \<le> component_info c"

subsection \<open>Placeholder registration\<close>

text \<open>
  \<^verbatim>\<open>pt.tensor(name, shape=shape, dtype=dtype)\<close>. The library raises a TypeError for
  an element type it does not know. It knows the float type it is configured with, which is
  the default of the argument \<^verbatim>\<open>dtype\<close> in this file.
\<close>

definition pt_tensor :: "externals \<Rightarrow> string \<Rightarrow> shape \<Rightarrow> string \<Rightarrow> error + tensor" where
  "pt_tensor ext nm shp dtype =
     (if dtype = floatX ext \<or> dtype \<in> set (tensor_dtypes ext) then
        Inr (Placeholder nm shp dtype)
      else Inl TypeError)"

text \<open>
  \<^verbatim>\<open>Component.make_and_register_variable(name, shape, dtype)\<close>. The two checks come
  first, then the placeholder is created, then it is stored.
\<close>

definition make_and_register_variable ::
  "externals \<Rightarrow> component \<Rightarrow> string \<Rightarrow> shape \<Rightarrow> string \<Rightarrow> store \<Rightarrow>
   (error + tensor) \<times> store" where
  "make_and_register_variable ext c nm shp dtype h =
     (if nm \<notin> set (get_list h (param_names c)) then
        (Inl (ValueError ''is not a model parameter''), h)
      else if nm \<in> set (dict_keys (get_dict h (name_to_variable c))) then
        (Inl (ValueError ''is already a registered placeholder variable''), h)
      else
        case pt_tensor ext nm shp dtype of
          Inl e \<Rightarrow> (Inl e, h)
        | Inr placeholder \<Rightarrow>
            (Inr placeholder,
             set_dict (name_to_variable c)
               (AList.update nm (PVar placeholder) (get_dict h (name_to_variable c))) h))"

text \<open>\<^verbatim>\<open>Component.make_and_register_data(name, shape, dtype)\<close>.\<close>

definition make_and_register_data ::
  "externals \<Rightarrow> component \<Rightarrow> string \<Rightarrow> shape \<Rightarrow> string \<Rightarrow> store \<Rightarrow>
   (error + tensor) \<times> store" where
  "make_and_register_data ext c nm shp dtype h =
     (if nm \<notin> set (get_list h (data_names c)) then
        (Inl (ValueError ''is not a model parameter''), h)
      else if nm \<in> set (dict_keys (get_dict h (name_to_data c))) then
        (Inl (ValueError ''is already a registered placeholder variable''), h)
      else
        case pt_tensor ext nm shp dtype of
          Inl e \<Rightarrow> (Inl e, h)
        | Inr placeholder \<Rightarrow>
            (Inr placeholder,
             set_dict (name_to_data c)
               (AList.update nm (PVar placeholder) (get_dict h (name_to_data c))) h))"

subsection \<open>Construction\<close>

text \<open>
  Computations that may raise and that read and write the store.
\<close>

type_synonym 'a comp = "store \<Rightarrow> (error + 'a) \<times> store"

definition bind :: "'a comp \<Rightarrow> ('a \<Rightarrow> 'b comp) \<Rightarrow> 'b comp" where
  "bind m f h = (case m h of (Inl e, h') \<Rightarrow> (Inl e, h') | (Inr x, h') \<Rightarrow> f x h')"

text \<open>An optional list argument: the caller's list when one is given, a new empty list otherwise.\<close>

definition given_or_new :: "ref option \<Rightarrow> store \<Rightarrow> ref \<times> store" where
  "given_or_new r h = (case r of Some r' \<Rightarrow> (r', h) | None \<Rightarrow> alloc_list [] h)"

text \<open>
  The two methods every concrete component overrides. In the base class both raise.
\<close>

type_synonym hook = "component \<Rightarrow> component comp"

definition not_implemented :: hook where
  "not_implemented self h = (Inl (NotImplementedError ''''), h)"

text \<open>
  \<^verbatim>\<open>Component.__init__\<close>. The methods \<^verbatim>\<open>populate_component_properties\<close> and
  \<^verbatim>\<open>make_symbolic_graph\<close> of the concrete class are the arguments \<open>populate\<close> and
  \<open>graph\<close>; they may rebind attributes, so they return the component. The attribute
  \<^verbatim>\<open>_component_info\<close> is set by the last statement only and no method reads it before:
  until then its field holds the reference it is about to receive.
\<close>

definition Component_init ::
  "externals \<Rightarrow> hook \<Rightarrow> hook \<Rightarrow> string \<Rightarrow> nat \<Rightarrow> nat \<Rightarrow> nat \<Rightarrow>
   ref option \<Rightarrow> ref option \<Rightarrow> ref option \<Rightarrow> ref option \<Rightarrow> ref option \<Rightarrow>
   representation option \<Rightarrow> bool \<Rightarrow> bool \<Rightarrow> bool \<Rightarrow> real list option \<Rightarrow> component comp" where
  "Component_init ext populate graph nm ke ks kp state_names' data_names' shock_names'
       param_names' exog_names' representation' measurement_error' combine_hidden_states'
       component_from_sum obs_state_idxs h0 =
     (let (sn, h1) = given_or_new state_names' h0;
          (dn, h2) = given_or_new data_names' h1;
          (shn, h3) = given_or_new shock_names' h2;
          (pn, h4) = given_or_new param_names' h3;
          (en, h5) = given_or_new exog_names' h4;
          (co, h6) = alloc_dict [] h5;
          (pd, h7) = alloc_dict [] h6;
          (pinfo, h8) = alloc_dict [] h7;
          (di, h9) = alloc_dict [] h8;
          (pc, h10) = alloc_dict [] h9;
          (nv, h11) = alloc_dict [] h10;
          (nd, h12) = alloc_dict [] h11;
          self = \<lparr>name = nm, k_endog = ke, k_states = ks, k_posdef = kp,
                  measurement_error = measurement_error',
                  state_names = sn, data_names = dn, shock_names = shn, param_names = pn,
                  exog_names = en, needs_exog_data = (length (get_list h5 en) > 0),
                  coords = co, param_dims = pd, param_info = pinfo, data_info = di,
                  param_counts = pc,
                  ssm = (case representation' of
                           None \<Rightarrow> PytensorRepresentation ext ke ks kp []
                         | Some r \<Rightarrow> r),
                  name_to_variable = nv, name_to_data = nd,
                  component_info = length (infos h12)\<rparr>
      in bind (if component_from_sum then (\<lambda>h. (Inr self, h))
               else bind (populate self) graph)
           (\<lambda>self h.
              let (ci, h') =
                    alloc_info [(name self,
                                 \<lparr>ci_k_states = k_states self, ci_k_enodg = k_endog self,
                                  ci_k_posdef = k_posdef self,
                                  ci_combine_hidden_states = combine_hidden_states',
                                  ci_obs_state_idx = obs_state_idxs\<rparr>)] h
              in (Inr (self\<lparr>component_info := ci\<rparr>), h')) h12)"

subsection \<open>Composition\<close>

text \<open>\<^verbatim>\<open>Component._get_combined_shapes\<close>.\<close>

definition get_combined_shapes :: "component \<Rightarrow> component \<Rightarrow> error + nat \<times> nat \<times> nat" where
  "get_combined_shapes self other =
     (let k_states' = k_states self + k_states other;
          k_posdef' = k_posdef self + k_posdef other
      in if k_endog self \<noteq> k_endog other then
           Inl (NotImplementedError
                  ''Merging elements with different numbers of observed states is not supported.>'')
         else Inr (k_states', k_posdef', k_endog self))"

text \<open>
  \<^verbatim>\<open>Component._combine_statespace_representations\<close>. Each matrix is read with full
  slices, so it is read whole; \<^verbatim>\<open>conform_time_varying_and_time_invariant_matrices\<close> is
  imported from elsewhere and stays an operator of the graph.
\<close>

definition conform :: "tensor \<Rightarrow> tensor \<Rightarrow> tensor" where
  "conform x o_x = Op ''conform_time_varying_and_time_invariant_matrices'' [x, o_x]"

definition combine_statespace_representations ::
  "externals \<Rightarrow> component \<Rightarrow> component \<Rightarrow> error + representation" where
  "combine_statespace_representations ext self other =
     (case get_combined_shapes self other of
        Inl e \<Rightarrow> Inl e
      | Inr (k_states', k_posdef', k_endog') \<Rightarrow>
          let m = (\<lambda>n. ssm_get (ssm self) n);
              o_m = (\<lambda>n. ssm_get (ssm other) n)
          in Inr (PytensorRepresentation ext k_endog' k_states' k_posdef'
               [(''initial_state'',
                   Op ''concatenate'' [conform (m ''initial_state'') (o_m ''initial_state'')]),
                (''initial_state_cov'',
                   Op ''block_diag'' [m ''initial_state_cov'', o_m ''initial_state_cov'']),
                (''state_intercept'',
                   Op ''concatenate'' [conform (m ''state_intercept'') (o_m ''state_intercept'')]),
                (''obs_intercept'', Op ''add'' [m ''obs_intercept'', o_m ''obs_intercept'']),
                (''transition'', Op ''block_diag'' [m ''transition'', o_m ''transition'']),
                (''design'', Op ''concatenate_last'' [conform (m ''design'') (o_m ''design'')]),
                (''selection'', Op ''block_diag'' [m ''selection'', o_m ''selection'']),
                (''obs_cov'', Op ''add'' [m ''obs_cov'', o_m ''obs_cov'']),
                (''state_cov'', Op ''block_diag'' [m ''state_cov'', o_m ''state_cov''])]))"

text \<open>
  \<^verbatim>\<open>Component._combine_property\<close>, for an attribute that is a list and for one that is a
  dictionary: a new list, and an updated copy.
\<close>

definition combine_property_list :: "ref \<Rightarrow> ref \<Rightarrow> store \<Rightarrow> ref \<times> store" where
  "combine_property_list self_prop other_prop h =
     alloc_list (get_list h self_prop @ get_list h other_prop) h"

definition combine_property_dict :: "ref \<Rightarrow> ref \<Rightarrow> store \<Rightarrow> ref \<times> store" where
  "combine_property_dict self_prop other_prop h =
     alloc_dict (dict_update (get_dict h self_prop) (get_dict h other_prop)) h"

definition startswith :: "string \<Rightarrow> string \<Rightarrow> bool" where
  "startswith s p \<longleftrightarrow> take (length p) s = p"

text \<open>One of the two loops of \<^verbatim>\<open>Component._combine_component_info\<close>.\<close>

fun add_component_info :: "info_dict \<Rightarrow> info_dict \<Rightarrow> error + info_dict" where
  "add_component_info [] combined_info = Inr combined_info"
| "add_component_info ((key, v) # rest) combined_info =
     (if \<not> startswith key ''StateSpace'' then
        (if key \<in> set (dict_keys combined_info) then
           Inl (ValueError ''Found duplicate component'')
         else add_component_info rest (AList.update key v combined_info))
      else add_component_info rest combined_info)"

text \<open>
  \<^verbatim>\<open>Component._combine_component_info\<close>. The dictionary is local until it is returned;
  it enters the store when the caller binds it.
\<close>

definition combine_component_info :: "component \<Rightarrow> component \<Rightarrow> store \<Rightarrow> error + info_dict" where
  "combine_component_info self other h =
     (case add_component_info (get_info h (component_info self)) [] of
        Inl e \<Rightarrow> Inl e
      | Inr combined_info \<Rightarrow>
          add_component_info (get_info h (component_info other)) combined_info)"

fun join :: "string \<Rightarrow> string list \<Rightarrow> string" where
  "join sep [] = []"
| "join sep [x] = x"
| "join sep (x # y # ys) = x @ sep @ join sep (y # ys)"

text \<open>\<^verbatim>\<open>Component._make_combined_name\<close>.\<close>

definition make_combined_name :: "component \<Rightarrow> store \<Rightarrow> string" where
  "make_combined_name self h =
     ''StateSpace['' @ join '', '' (dict_keys (get_info h (component_info self))) @ '']''"

text \<open>
  The names under which a component enters a composition: the keys of its component-info
  table that \<^verbatim>\<open>_combine_component_info\<close> does not skip.
\<close>

definition component_names :: "store \<Rightarrow> component \<Rightarrow> string list" where
  "component_names h c =
     filter (\<lambda>k. \<not> startswith k ''StateSpace'') (dict_keys (get_info h (component_info c)))"

text \<open>The entries of a table that \<^verbatim>\<open>_combine_component_info\<close> copies.\<close>

definition kept :: "info_dict \<Rightarrow> info_dict" where
  "kept xs = filter (\<lambda>(k, v). \<not> startswith k ''StateSpace'') xs"

text \<open>
  \<^verbatim>\<open>Component.__add__\<close>. The new component is built by the base class's constructor with
  \<^verbatim>\<open>k_endog=1\<close> and \<^verbatim>\<open>component_from_sum=True\<close>; its attributes are then rebound to the
  combined properties.
\<close>

definition add :: "externals \<Rightarrow> component \<Rightarrow> component \<Rightarrow> component comp" where
  "add ext self other h0 =
     (let (state_names', h1) = combine_property_list (state_names self) (state_names other) h0;
          (data_names', h2) = combine_property_list (data_names self) (data_names other) h1;
          (param_names', h3) = combine_property_list (param_names self) (param_names other) h2;
          (shock_names', h4) = combine_property_list (shock_names self) (shock_names other) h3;
          (param_info', h5) = combine_property_dict (param_info self) (param_info other) h4;
          (data_info', h6) = combine_property_dict (data_info self) (data_info other) h5;
          (param_dims', h7) = combine_property_dict (param_dims self) (param_dims other) h6;
          (coords', h8) = combine_property_dict (coords self) (coords other) h7;
          (exog_names', h9) = combine_property_list (exog_names self) (exog_names other) h8;
          (name_to_variable', h10) =
             combine_property_dict (name_to_variable self) (name_to_variable other) h9;
          (name_to_data', h11) =
             combine_property_dict (name_to_data self) (name_to_data other) h10;
          measurement_error' = (measurement_error self \<or> measurement_error other)
      in case get_combined_shapes self other of
           Inl e \<Rightarrow> (Inl e, h11)
         | Inr (k_states', k_posdef', k_endog') \<Rightarrow>
      (case combine_statespace_representations ext self other of
           Inl e \<Rightarrow> (Inl e, h11)
         | Inr ssm' \<Rightarrow>
      bind (Component_init ext not_implemented not_implemented '''' 1 k_states' k_posdef'
              None None None None None (Some ssm') measurement_error' True True None)
        (\<lambda>new_comp h.
           case combine_component_info self other h of
             Inl e \<Rightarrow> (Inl e, h)
           | Inr combined_info \<Rightarrow>
               let (ci, h') = alloc_info combined_info h;
                   new_comp = new_comp\<lparr>component_info := ci\<rparr>;
                   new_comp = new_comp\<lparr>name := make_combined_name new_comp h'\<rparr>
               in (Inr (new_comp\<lparr>state_names := state_names', data_names := data_names',
                                 param_names := param_names', shock_names := shock_names',
                                 param_dims := param_dims', coords := coords',
                                 param_info := param_info', data_info := data_info',
                                 exog_names := exog_names',
                                 name_to_variable := name_to_variable',
                                 name_to_data := name_to_data'\<rparr>), h')) h11))"

section \<open>Concrete components\<close>

subsection \<open>Helpers from Python and numpy\<close>

text \<open>Decimal formatting of an integer in an f-string.\<close>

fun str_nat :: "nat \<Rightarrow> string" where
  "str_nat n =
     (if n < 10 then [''0123456789'' ! n]
      else str_nat (n div 10) @ [''0123456789'' ! (n mod 10)])"

declare str_nat.simps [simp del]

definition str_int :: "int \<Rightarrow> string" where
  "str_int i = (if i < 0 then ''-'' @ str_nat (nat (- i)) else str_nat (nat i))"

text \<open>
  The argument \<^verbatim>\<open>order\<close>: an integer or a list of integers, and \<^verbatim>\<open>order_to_mask\<close>.
  \<^verbatim>\<open>np.ones\<close> refuses a negative length.
\<close>

datatype order = Count int | Mask "int list"

definition order_to_mask :: "order \<Rightarrow> error + bool list" where
  "order_to_mask order' =
     (case order' of
        Count n \<Rightarrow>
          if n < 0 then Inl (ValueError ''negative dimensions are not allowed'')
          else Inr (replicate (nat n) True)
      | Mask xs \<Rightarrow> Inr (map (\<lambda>x. x \<noteq> 0) xs))"

definition flatnonzero :: "bool list \<Rightarrow> nat list" where
  "flatnonzero msk = filter (\<lambda>i. msk ! i) [0..<length msk]"

text \<open>\<^verbatim>\<open>np.eye(n, k=k)\<close>: ones on the \<open>k\<close>-th diagonal.\<close>

definition eye :: "nat \<Rightarrow> int \<Rightarrow> real list list" where
  "eye n k = map (\<lambda>i. map (\<lambda>j. if int j = int i + k then 1 else 0) [0..<n]) [0..<n]"

text \<open>\<^verbatim>\<open>x ** 2\<close> on a symbolic variable.\<close>

definition squared :: "tensor \<Rightarrow> tensor" where
  "squared x = Op ''pow'' [x, Scalar 2]"

text \<open>
  \<^verbatim>\<open>self.param_info[name]["dims"] = self.param_dims[name]\<close> for every name of a list.
\<close>

fun set_dims :: "string list \<Rightarrow> dict \<Rightarrow> dict \<Rightarrow> error + dict" where
  "set_dims [] pd pinfo = Inr pinfo"
| "set_dims (n # ns) pd pinfo =
     (case map_of pd n of
        None \<Rightarrow> Inl KeyError
      | Some d \<Rightarrow>
          (case map_of pinfo n of
             None \<Rightarrow> Inl KeyError
           | Some (PDict inner) \<Rightarrow>
               set_dims ns pd (AList.update n (PDict (AList.update ''dims'' d inner)) pinfo)
           | Some _ \<Rightarrow> Inl TypeError))"

subsection \<open>Level and trend\<close>

text \<open>
  \<^verbatim>\<open>LevelTrendComponent.populate_component_properties\<close>. The constructor has stored the
  two masks on the object before the base class runs; they are the first arguments.
\<close>

definition LevelTrend_populate :: "externals \<Rightarrow> bool list \<Rightarrow> bool list \<Rightarrow> hook" where
  "LevelTrend_populate ext order_mask innovations_order self h0 =
     (let name_slice = take (k_states self) (POSITION_DERIVATIVE_NAMES ext);
          (pn, h1) = alloc_list [''initial_trend''] h0;
          (sn, h2) = alloc_list (map fst (filter snd (zip name_slice order_mask))) h1;
          (pd, h3) = alloc_dict [(''initial_trend'', PTuple [PStr ''trend_state''])] h2;
          (co, h4) = alloc_dict [(''trend_state'', PList (map PStr (get_list h3 sn)))] h3;
          (pinfo, h5) = alloc_dict
                       [(''initial_trend'',
                         PDict [(''shape'', PTuple [PInt (int (k_states self))]),
                                (''constraints'', PNone)])] h4;
          self = self\<lparr>param_names := pn, state_names := sn, param_dims := pd, coords := co,
                      param_info := pinfo\<rparr>;
          (self, h10) =
             (if k_posdef self > 0 then
                let h6 = set_list pn (get_list h5 pn @ [''sigma_trend'']) h5;
                    (shn, h7) =
                       alloc_list (map fst (filter snd (zip name_slice innovations_order))) h6;
                    h8 = set_dict pd
                           (AList.update ''sigma_trend'' (PTuple [PStr ''trend_shock''])
                              (get_dict h7 pd)) h7;
                    h9 = set_dict co
                           (AList.update ''trend_shock'' (PList (map PStr (get_list h8 shn)))
                              (get_dict h8 co)) h8;
                    h10 = set_dict pinfo
                            (AList.update ''sigma_trend''
                               (PDict [(''shape'', PTuple [PInt (int (k_posdef self))]),
                                       (''constraints'', PStr ''Positive'')])
                               (get_dict h9 pinfo)) h9
                in (self\<lparr>shock_names := shn\<rparr>, h10)
              else (self, h5))
      in case set_dims (get_list h10 pn) (get_dict h10 pd) (get_dict h10 pinfo) of
           Inl e \<Rightarrow> (Inl e, h10)
         | Inr pi' \<Rightarrow> (Inr self, set_dict pinfo pi' h10))"

text \<open>
  \<^verbatim>\<open>LevelTrendComponent.make_symbolic_graph\<close>. A boolean mask that indexes the columns
  of the identity must have as many entries as there are columns.
\<close>

definition LevelTrend_graph :: "externals \<Rightarrow> bool list \<Rightarrow> hook" where
  "LevelTrend_graph ext innovations_order self =
     bind (make_and_register_variable ext self ''initial_trend'' [Some (k_states self)] (floatX ext))
       (\<lambda>initial_trend h.
          let k = k_states self;
              s1 = ssm_set ''initial_state'' initial_trend (ssm self);
              triu_idx = concat (map (\<lambda>i. map (\<lambda>j. (i, j)) [i..<k]) [0..<k]);
              s2 = ssm_set_at ''transition'' [Fancy (map fst triu_idx), Fancy (map snd triu_idx)]
                     (Scalar 1) s1
          in if length innovations_order \<noteq> k then (Inl IndexError, h)
             else
               let R = map (\<lambda>row. map (\<lambda>j. row ! j) (flatnonzero innovations_order)) (eye k 0);
                   s3 = ssm_set ''selection'' (Mat R) s2;
                   s4 = ssm_set_at ''design'' [Pos 0, Full] (Vec (1 # replicate (k - 1) 0)) s3
               in if k_posdef self > 0 then
                    bind (make_and_register_variable ext self ''sigma_trend''
                            [Some (k_posdef self)] (floatX ext))
                      (\<lambda>sigma_trend h.
                         (Inr (self\<lparr>ssm :=
                                  ssm_set_at ''state_cov''
                                    [Fancy [0..<k_posdef self], Fancy [0..<k_posdef self]]
                                    (squared sigma_trend) s4\<rparr>), h)) h
                  else (Inr (self\<lparr>ssm := s4\<rparr>), h))"

text \<open>
  \<^verbatim>\<open>LevelTrendComponent.__init__(order, innovations_order, name)\<close>. The last nonzero
  entry of the order mask is read with \<^verbatim>\<open>[-1]\<close>, which fails on a mask without one. The
  number of shocks is the sum of the innovations mask before it is cut to the state count.
\<close>

definition LevelTrendComponent ::
  "externals \<Rightarrow> order \<Rightarrow> order option \<Rightarrow> string \<Rightarrow> component comp" where
  "LevelTrendComponent ext order' innovations_order' nm h =
     (let innovations_order = (case innovations_order' of None \<Rightarrow> order' | Some io \<Rightarrow> io)
      in case order_to_mask order' of
           Inl e \<Rightarrow> (Inl e, h)
         | Inr order_mask \<Rightarrow>
             if flatnonzero order_mask = [] then (Inl IndexError, h)
             else
               let max_state = last (flatnonzero order_mask) + 1
               in if length order_mask > max_state then
                    (Inl (ValueError ''The highest derivative should not be set to zero''), h)
                  else
                    let k_states' = max_state
                    in case (case innovations_order of
                               Count n \<Rightarrow>
                                 (case order_to_mask (Count (int k_states')) of
                                    Inl e \<Rightarrow> Inl e
                                  | Inr io \<Rightarrow>
                                      if n > 0 then
                                        Inr (take (nat n) io @
                                             replicate (length io - nat n) False)
                                      else Inr (replicate (length io) False))
                             | Mask xs \<Rightarrow> order_to_mask (Mask xs)) of
                         Inl e \<Rightarrow> (Inl e, h)
                       | Inr io \<Rightarrow>
                           let self_innovations_order = take max_state io;
                               k_posdef' = length (filter id io)
                           in Component_init ext
                                (LevelTrend_populate ext order_mask self_innovations_order)
                                (LevelTrend_graph ext self_innovations_order)
                                nm 1 k_states' k_posdef' None None None None None None
                                False False False
                                (Some (1 # replicate (k_states' - 1) 0)) h)"

subsection \<open>Measurement error\<close>

text \<open>\<^verbatim>\<open>MeasurementError.populate_component_properties\<close>.\<close>

definition MeasurementError_populate :: hook where
  "MeasurementError_populate self h0 =
     (let (pn, h1) = alloc_list [''sigma_'' @ name self] h0;
          (pd, h2) = alloc_dict [] h1;
          (pinfo, h3) = alloc_dict
                       [(''sigma_'' @ name self,
                         PDict [(''shape'', PTuple []), (''constraints'', PStr ''Positive''),
                                (''dims'', PNone)])] h2
      in (Inr (self\<lparr>param_names := pn, param_dims := pd, param_info := pinfo\<rparr>), h3))"

text \<open>\<^verbatim>\<open>MeasurementError.make_symbolic_graph\<close>.\<close>

definition MeasurementError_graph :: "externals \<Rightarrow> hook" where
  "MeasurementError_graph ext self =
     bind (make_and_register_variable ext self (''sigma_'' @ name self) [] (floatX ext))
       (\<lambda>error_sigma h.
          (Inr (self\<lparr>ssm :=
                   ssm_set_at ''obs_cov'' [Fancy [0..<k_endog self], Fancy [0..<k_endog self]]
                     (squared error_sigma) (ssm self)\<rparr>), h))"

text \<open>\<^verbatim>\<open>MeasurementError.__init__(name)\<close>.\<close>

definition MeasurementError :: "externals \<Rightarrow> string \<Rightarrow> component comp" where
  "MeasurementError ext nm =
     Component_init ext MeasurementError_populate (MeasurementError_graph ext) nm 1 0 0
       None None None None None None True False False None"

subsection \<open>Seasonality in the time domain\<close>

text \<open>
  The transition matrices \<^verbatim>\<open>make_symbolic_graph\<close> builds with numpy: the subdiagonal
  identity with a first row of \<open>-1\<close>, and the circulant shift.
\<close>

definition seasonal_transition :: "nat \<Rightarrow> real list list" where
  "seasonal_transition k = (eye k (- 1))[0 := replicate k (- 1)]"

definition circulant_transition :: "nat \<Rightarrow> real list list" where
  "circulant_transition k = (let T = eye k 1 in T[k - 1 := (T ! (k - 1))[0 := 1]])"

text \<open>\<^verbatim>\<open>TimeSeasonality.populate_component_properties\<close>.\<close>

definition TimeSeasonality_populate :: "bool \<Rightarrow> hook" where
  "TimeSeasonality_populate innovations self h0 =
     (let coefs = name self @ ''_coefs'';
          state_dim = name self @ ''_state'';
          (pn, h1) = alloc_list [coefs] h0;
          (pinfo, h2) = alloc_dict
                       [(coefs, PDict [(''shape'', PTuple [PInt (int (k_states self))]),
                                       (''constraints'', PNone),
                                       (''dims'', PTuple [PStr state_dim])])] h1;
          (pd, h3) = alloc_dict [(coefs, PTuple [PStr state_dim])] h2;
          (co, h4) = alloc_dict
                       [(state_dim, PList (map PStr (get_list h3 (state_names self))))] h3;
          self = self\<lparr>param_names := pn, param_info := pinfo, param_dims := pd, coords := co\<rparr>
      in if innovations then
           let h5 = set_list pn (get_list h4 pn @ [''sigma_'' @ name self]) h4;
               h6 = set_dict pinfo
                      (AList.update (''sigma_'' @ name self)
                         (PDict [(''shape'', PTuple []), (''constraints'', PStr ''Positive''),
                                 (''dims'', PNone)])
                         (get_dict h5 pinfo)) h5;
               (shn, h7) = alloc_list [name self] h6
           in (Inr (self\<lparr>shock_names := shn\<rparr>), h7)
         else (Inr self, h4))"

text \<open>\<^verbatim>\<open>TimeSeasonality.make_symbolic_graph\<close>.\<close>

definition TimeSeasonality_graph :: "externals \<Rightarrow> bool \<Rightarrow> bool \<Rightarrow> hook" where
  "TimeSeasonality_graph ext innovations remove_first_state self =
     (let k = k_states self;
          T = (if remove_first_state then seasonal_transition k else circulant_transition k);
          s1 = ssm_set ''transition'' (Mat T) (ssm self);
          s2 = ssm_set_at ''design'' [Pos 0, Pos 0] (Scalar 1) s1
      in bind (make_and_register_variable ext self (name self @ ''_coefs'') [Some k] (floatX ext))
           (\<lambda>initial_states h.
              let s3 = ssm_set_at ''initial_state'' [Fancy [0..<k]] initial_states s2
              in if innovations then
                   let s4 = ssm_set_at ''selection'' [Pos 0, Pos 0] (Scalar 1) s3
                   in bind (make_and_register_variable ext self (''sigma_'' @ name self) []
                              (floatX ext))
                        (\<lambda>season_sigma h.
                           (Inr (self\<lparr>ssm := ssm_set_at ''state_cov'' [Fancy [0], Fancy [0]]
                                                (squared season_sigma) s4\<rparr>), h)) h
                 else (Inr (self\<lparr>ssm := s3\<rparr>), h)))"

text \<open>
  \<^verbatim>\<open>TimeSeasonality.__init__(season_length, innovations, name, state_names,
  remove_first_state)\<close>. The list of state names is created (or copied) first and its
  first entry is then popped in place; \<^verbatim>\<open>np.zeros(k_states - 1)\<close> in the arguments of the
  base constructor refuses a negative length.
\<close>

definition TimeSeasonality ::
  "externals \<Rightarrow> int \<Rightarrow> bool \<Rightarrow> string option \<Rightarrow> string list option \<Rightarrow> bool \<Rightarrow> component comp" where
  "TimeSeasonality ext season_length innovations name' state_names' remove_first_state h0 =
     (let nm = (case name' of
                  None \<Rightarrow> ''Seasonal[s='' @ str_int season_length @ '']''
                | Some n \<Rightarrow> n)
      in case (case state_names' of
                 None \<Rightarrow> Inr (map (\<lambda>i. nm @ ''_'' @ str_nat i) [0..<nat season_length])
               | Some xs \<Rightarrow>
                   if int (length xs) \<noteq> season_length then
                     Inl (ValueError ''state_names must be a list of length season_length'')
                   else Inr xs) of
           Inl e \<Rightarrow> (Inl e, h0)
         | Inr names \<Rightarrow>
             let (sn, h1) = alloc_list names h0
             in if remove_first_state \<and> names = [] then (Inl IndexError, h1)
                else
                  let h2 = (if remove_first_state then set_list sn (tl names) h1 else h1);
                      k_states' = season_length - (if remove_first_state then 1 else 0)
                  in if k_states' - 1 < 0 then
                       (Inl (ValueError ''negative dimensions are not allowed''), h2)
                     else
                       Component_init ext (TimeSeasonality_populate innovations)
                         (TimeSeasonality_graph ext innovations remove_first_state)
                         nm 1 (nat k_states') (if innovations then 1 else 0)
                         (Some sn) None None None None None False True False
                         (Some (1 # replicate (nat k_states' - 1) 0)) h2)"

subsection \<open>Seasonality in the frequency domain\<close>

text \<open>
  \<^verbatim>\<open>_frequency_transition_block(s, j)\<close>. The angle \<^verbatim>\<open>2 * np.pi * j / s\<close> stays a
  term of the graph; the division is by the season length and raises when that is zero.
\<close>

definition frequency_transition_block :: "int \<Rightarrow> nat \<Rightarrow> error + tensor" where
  "frequency_transition_block s j =
     (if s = 0 then Inl ZeroDivisionError
      else
        let lam = Op ''true_divide''
                    [Op ''mul'' [Scalar 2, Op ''pi'' [], Scalar (real j)],
                     Scalar (real_of_int s)]
        in Inr (Op ''stack''
                 [Op ''stack'' [Op ''cos'' [lam], Op ''sin'' [lam]],
                  Op ''stack'' [Op ''neg'' [Op ''sin'' [lam]], Op ''cos'' [lam]]]))"

fun collect :: "(error + 'a) list \<Rightarrow> error + 'a list" where
  "collect [] = Inr []"
| "collect (x # xs) =
     (case x of
        Inl e \<Rightarrow> Inl e
      | Inr v \<Rightarrow> (case collect xs of Inl e \<Rightarrow> Inl e | Inr vs \<Rightarrow> Inr (v # vs)))"

text \<open>
  The attributes a \<^verbatim>\<open>FrequencySeasonality\<close> has beyond those of a component.
\<close>

record frequency_seasonality =
  fs_component :: component
  fs_n :: nat
  fs_season_length :: int
  fs_innovations :: bool
  last_state_not_identified :: bool
  n_coefs :: nat

text \<open>\<^verbatim>\<open>FrequencySeasonality.populate_component_properties\<close>.\<close>

definition FrequencySeasonality_populate :: "nat \<Rightarrow> bool \<Rightarrow> bool \<Rightarrow> hook" where
  "FrequencySeasonality_populate n innovations last_state_not_identified' self h0 =
     (let state_dim = name self @ ''_state'';
          names = concat (map (\<lambda>i. [name self @ ''_Cos_'' @ str_nat i,
                                     name self @ ''_Sin_'' @ str_nat i]) [0..<n]);
          (sn, h1) = alloc_list names h0;
          (pn, h2) = alloc_list [name self] h1;
          (pd, h3) = alloc_dict [(name self, PTuple [PStr state_dim])] h2;
          (pinfo, h4) = alloc_dict
                       [(name self,
                         PDict [(''shape'',
                                   PTuple [PInt (int (k_states self) -
                                                 (if last_state_not_identified' then 1 else 0))]),
                                (''constraints'', PNone),
                                (''dims'', PTuple [PStr state_dim])])] h3;
          init_state_idx = [0..<k_states self];
          init_state_idx = (if last_state_not_identified' then butlast init_state_idx
                            else init_state_idx)
      in if \<exists>i \<in> set init_state_idx. i \<ge> length (get_list h4 sn) then (Inl IndexError, h4)
         else
           let (co, h5) = alloc_dict
                            [(state_dim,
                              PList (map (\<lambda>i. PStr (get_list h4 sn ! i)) init_state_idx))] h4;
               self = self\<lparr>state_names := sn, param_names := pn, param_dims := pd,
                           param_info := pinfo, coords := co\<rparr>
           in if innovations then
                let (shn, h6) = copy_list sn h5;
                    h7 = set_list pn (get_list h6 pn @ [''sigma_'' @ name self]) h6;
                    h8 = set_dict pinfo
                           (AList.update (''sigma_'' @ name self)
                              (PDict [(''shape'', PTuple []),
                                      (''constraints'', PStr ''Positive''),
                                      (''dims'', PNone)])
                              (get_dict h7 pinfo)) h7
                in (Inr (self\<lparr>shock_names := shn\<rparr>), h8)
              else (Inr self, h5))"

text \<open>\<^verbatim>\<open>FrequencySeasonality.make_symbolic_graph\<close>.\<close>

definition FrequencySeasonality_graph ::
  "externals \<Rightarrow> nat \<Rightarrow> int \<Rightarrow> bool \<Rightarrow> nat \<Rightarrow> hook" where
  "FrequencySeasonality_graph ext n season_length innovations n_coefs' self =
     (let k = k_states self;
          s1 = ssm_set_at ''design'' [Pos 0, Range 0 k 2] (Scalar 1) (ssm self)
      in bind (make_and_register_variable ext self (name self) [Some n_coefs'] (floatX ext))
           (\<lambda>init_state h.
              let s2 = ssm_set_at ''initial_state'' [Fancy [0..<n_coefs']] init_state s1
              in case collect (map (\<lambda>j. frequency_transition_block season_length (j + 1))
                                 [0..<n]) of
                   Inl e \<Rightarrow> (Inl e, h)
                 | Inr T_mats \<Rightarrow>
                     let s3 = ssm_set ''transition'' (Op ''block_diag'' T_mats) s2
                     in if innovations then
                          bind (make_and_register_variable ext self (''sigma_'' @ name self) []
                                  (floatX ext))
                            (\<lambda>sigma_season h.
                               let s4 = ssm_set ''state_cov''
                                          (Op ''mul'' [Mat (eye (k_posdef self) 0),
                                                       squared sigma_season]) s3
                               in (Inr (self\<lparr>ssm := ssm_set ''selection'' (Mat (eye k 0)) s4\<rparr>),
                                   h)) h
                        else (Inr (self\<lparr>ssm := s3\<rparr>), h)))"

text \<open>
  \<^verbatim>\<open>FrequencySeasonality.__init__(season_length, n, name, innovations)\<close>, for an integer
  season length. The test \<^verbatim>\<open>season_length / n == 2.0\<close> is a true division: it raises
  when \<open>n\<close> is zero, and for operands below \<open>2 ^ 52\<close> its rounded quotient is \<open>2.0\<close>
  exactly when the real quotient is \<open>2\<close>. \<^verbatim>\<open>np.zeros(k_states)\<close> then refuses a negative
  length.
\<close>

definition FrequencySeasonality ::
  "externals \<Rightarrow> int \<Rightarrow> int option \<Rightarrow> string option \<Rightarrow> bool \<Rightarrow> frequency_seasonality comp" where
  "FrequencySeasonality ext season_length n' name' innovations h =
     (let n = (case n' of None \<Rightarrow> season_length div 2 | Some n \<Rightarrow> n);
          nm = (case name' of
                  None \<Rightarrow> ''Frequency[s='' @ str_int season_length @ '', n='' @ str_int n @ '']''
                | Some x \<Rightarrow> x);
          k_states' = n * 2
      in if n = 0 then (Inl ZeroDivisionError, h)
         else
           let last_state_not_identified' = (real_of_int season_length / real_of_int n = 2);
               n_coefs' = k_states' - (if last_state_not_identified' then 1 else 0)
           in if k_states' < 0 then
                (Inl (ValueError ''negative dimensions are not allowed''), h)
              else
                bind (Component_init ext
                        (FrequencySeasonality_populate (nat n) innovations
                           last_state_not_identified')
                        (FrequencySeasonality_graph ext (nat n) season_length innovations
                           (nat n_coefs'))
                        nm 1 (nat k_states') (nat k_states' * (if innovations then 1 else 0))
                        None None None None None None False True False
                        (Some (map (\<lambda>i. if even i then 1 else 0) [0..<nat k_states'])))
                  (\<lambda>c h. (Inr \<lparr>fs_component = c, fs_n = nat n,
                                fs_season_length = season_length,
                                fs_innovations = innovations,
                                last_state_not_identified = last_state_not_identified',
                                n_coefs = nat n_coefs'\<rparr>, h)) h)"

section \<open>The structural time series model\<close>

text \<open>
  The attributes of a \<^verbatim>\<open>StructuralTimeSeries\<close>. Those the source writes with a leading
  underscore carry the prefix \<open>sts\<close> instead, and so do the sizes and the representation
  the model shares by name with a component.
\<close>

record structural_time_series =
  sts_name :: string
  sts_state_names :: ref
  sts_data_names :: ref
  sts_shock_names :: ref
  sts_param_names :: ref
  sts_param_dims :: ref
  sts_coords :: ref
  sts_param_info :: ref
  sts_data_info :: ref
  sts_measurement_error :: bool
  sts_k_endog :: nat
  sts_k_states :: nat
  sts_k_posdef :: nat
  sts_ssm :: representation
  sts_component_info :: ref
  sts_name_to_variable :: ref
  sts_name_to_data :: ref
  sts_exog_names :: ref
  sts_needs_exog_data :: bool

text \<open>
  \<^verbatim>\<open>StructuralTimeSeries._add_inital_state_cov_to_properties\<close>: the list is extended and
  the two dictionaries are written in place; the same three objects are returned.
\<close>

definition add_inital_state_cov_to_properties ::
  "externals \<Rightarrow> ref \<Rightarrow> ref \<Rightarrow> ref \<Rightarrow> nat \<Rightarrow> store \<Rightarrow> (ref \<times> ref \<times> ref) \<times> store" where
  "add_inital_state_cov_to_properties ext param_names' param_dims' param_info' k_states' h0 =
     (let h1 = set_list param_names' (get_list h0 param_names' @ [''P0'']) h0;
          dims = PTuple [PStr (ALL_STATE_DIM ext), PStr (ALL_STATE_AUX_DIM ext)];
          h2 = set_dict param_dims' (AList.update ''P0'' dims (get_dict h1 param_dims')) h1;
          h3 = set_dict param_info'
                 (AList.update ''P0''
                    (PDict [(''shape'', PTuple [PInt (int k_states'), PInt (int k_states')]),
                            (''constraints'', PStr ''Positive semi-definite''),
                            (''dims'', dims)])
                    (get_dict h2 param_info')) h2
      in ((param_names', param_dims', param_info'), h3))"

text \<open>
  Modelled from the spec: \<^verbatim>\<open>PyMCStateSpace.make_and_register_variable\<close>, which the model
  inherits from a base class that is not part of the file. It has the contract the
  specification gives for the method of a component: it fails when the name is not among
  the parameter names or is already registered, and otherwise creates and stores a
  placeholder.
\<close>

definition sts_make_and_register_variable ::
  "externals \<Rightarrow> structural_time_series \<Rightarrow> string \<Rightarrow> shape \<Rightarrow> string \<Rightarrow> store \<Rightarrow>
   (error + tensor) \<times> store" where
  "sts_make_and_register_variable ext m nm shp dtype h =
     (if nm \<notin> set (get_list h (sts_param_names m)) then
        (Inl (ValueError ''is not a model parameter''), h)
      else if nm \<in> set (dict_keys (get_dict h (sts_name_to_variable m))) then
        (Inl (ValueError ''is already a registered placeholder variable''), h)
      else
        case pt_tensor ext nm shp dtype of
          Inl e \<Rightarrow> (Inl e, h)
        | Inr placeholder \<Rightarrow>
            (Inr placeholder,
             set_dict (sts_name_to_variable m)
               (AList.update nm (PVar placeholder) (get_dict h (sts_name_to_variable m))) h))"

text \<open>
  \<^verbatim>\<open>StructuralTimeSeries.__init__\<close>, statement by statement. The constructor of the base
  class, which is not part of the file, is taken to store the three sizes it receives (the
  source reads \<^verbatim>\<open>self.k_posdef\<close> and \<^verbatim>\<open>self.k_states\<close> right after the call);
  \<^verbatim>\<open>ssm.copy()\<close> is the representation itself, a value.
\<close>

definition StructuralTimeSeries_init ::
  "externals \<Rightarrow> representation \<Rightarrow> ref \<Rightarrow> ref \<Rightarrow> ref \<Rightarrow> ref \<Rightarrow> ref \<Rightarrow> ref \<Rightarrow> ref \<Rightarrow> ref \<Rightarrow> ref \<Rightarrow>
   ref \<Rightarrow> bool \<Rightarrow> ref \<Rightarrow> ref \<Rightarrow> string option \<Rightarrow> structural_time_series comp" where
  "StructuralTimeSeries_init ext ssm' state_names' data_names' shock_names' param_names'
       exog_names' param_dims' coords' param_info' data_info' component_info'
       measurement_error' name_to_variable' name_to_data' name' h0 =
     (let nm = (case name' of None \<Rightarrow> ''data'' | Some n \<Rightarrow> n);
          k_states' = r_k_states ssm'; k_posdef' = r_k_posdef ssm'; k_endog' = r_k_endog ssm';
          ((param_names', param_dims', param_info'), h1) =
             add_inital_state_cov_to_properties ext param_names' param_dims' param_info'
               k_states' h0;
          (sn, h2) = copy_list state_names' h1;
          (dn, h3) = copy_list data_names' h2;
          (shn, h4) = copy_list shock_names' h3;
          (pn, h5) = copy_list param_names' h4;
          (pd, h6) = copy_dict param_dims' h5;
          default_coords =
             make_default_coords ext nm (get_list h6 sn) (get_list h6 dn) (get_list h6 shn)
               (get_list h6 pn) (get_dict h6 pd);
          h7 = set_dict coords' (dict_update (get_dict h6 coords') default_coords) h6;
          (pinfo, h8) = copy_dict param_info' h7;
          (di, h9) = copy_dict data_info' h8;
          self_k_posdef = max 1 k_posdef';
          s = (if k_posdef' = 0 then
                 let s1 = ssm'\<lparr>r_k_posdef := self_k_posdef\<rparr>;
                     s2 = shapes_set ''state_cov'' [1, 1, 1] s1;
                     s3 = ssm_set ''state_cov'' (Zeros [1, 1, 1]) s2;
                     s4 = shapes_set ''selection'' [1, k_states', 1] s3
                 in ssm_set ''selection'' (Zeros [1, k_states', 1]) s4
               else ssm');
          (ci, h10) = copy_info component_info' h9;
          (nv, h11) = copy_dict name_to_variable' h10;
          (nd, h12) = copy_dict name_to_data' h11;
          (en, h13) = copy_list exog_names' h12;
          self = \<lparr>sts_name = nm, sts_state_names = sn, sts_data_names = dn,
                  sts_shock_names = shn, sts_param_names = pn, sts_param_dims = pd,
                  sts_coords = coords', sts_param_info = pinfo, sts_data_info = di,
                  sts_measurement_error = measurement_error',
                  sts_k_endog = k_endog', sts_k_states = k_states',
                  sts_k_posdef = self_k_posdef, sts_ssm = s,
                  sts_component_info = ci, sts_name_to_variable = nv, sts_name_to_data = nd,
                  sts_exog_names = en,
                  sts_needs_exog_data = (length (get_list h13 exog_names') > 0)\<rparr>
      in bind (sts_make_and_register_variable ext self ''P0'' [Some k_states', Some k_states']
                 (floatX ext))
           (\<lambda>P0 h. (Inr (self\<lparr>sts_ssm := ssm_set ''initial_state_cov'' P0 (sts_ssm self)\<rparr>), h))
           h13)"

text \<open>\<^verbatim>\<open>Component.build\<close>: the component's own objects are the arguments.\<close>

definition build :: "externals \<Rightarrow> component \<Rightarrow> string option \<Rightarrow> structural_time_series comp" where
  "build ext self name' =
     StructuralTimeSeries_init ext (ssm self) (state_names self) (data_names self)
       (shock_names self) (param_names self) (exog_names self) (param_dims self) (coords self)
       (param_info self) (data_info self) (component_info self) (measurement_error self)
       (name_to_variable self) (name_to_data self) name'"

text \<open>
  What \<^verbatim>\<open>build\<close> leaves behind in the objects of the component: the three writes of
  \<^verbatim>\<open>_add_inital_state_cov_to_properties\<close> and the update of the coordinates.
\<close>

definition after_build :: "externals \<Rightarrow> component \<Rightarrow> string option \<Rightarrow> store \<Rightarrow> store" where
  "after_build ext c nm h =
     set_dict (coords c)
       (dict_update (get_dict h (coords c))
          (make_default_coords ext (case nm of None \<Rightarrow> ''data'' | Some n \<Rightarrow> n)
             (get_list h (state_names c)) (get_list h (data_names c))
             (get_list h (shock_names c)) (get_list h (param_names c) @ [''P0''])
             (AList.update ''P0''
                (PTuple [PStr (ALL_STATE_DIM ext), PStr (ALL_STATE_AUX_DIM ext)])
                (get_dict h (param_dims c)))))
       (set_dict (param_info c)
          (AList.update ''P0''
             (PDict [(''shape'', PTuple [PInt (int (r_k_states (ssm c))),
                                       PInt (int (r_k_states (ssm c)))]),
                     (''constraints'', PStr ''Positive semi-definite''),
                     (''dims'', PTuple [PStr (ALL_STATE_DIM ext),
                                       PStr (ALL_STATE_AUX_DIM ext)])])
             (get_dict h (param_info c)))
          (set_dict (param_dims c)
             (AList.update ''P0''
                (PTuple [PStr (ALL_STATE_DIM ext), PStr (ALL_STATE_AUX_DIM ext)])
                (get_dict h (param_dims c)))
             (set_list (param_names c) (get_list h (param_names c) @ [''P0'']) h)))"

subsection \<open>Concrete instances\<close>



text \<open>Values for what the file imports, and the store in which nothing is allocated.\<close>

definition demo_externals :: externals where
  "demo_externals =
     \<lparr>floatX = ''float64'', tensor_dtypes = [''float32'', ''float64'', ''int64'', ''bool''],
      ALL_STATE_DIM = ''state'', ALL_STATE_AUX_DIM = ''state_aux'',
      POSITION_DERIVATIVE_NAMES = [''level'', ''trend'', ''acceleration''],
      default_shapes = (\<lambda>ke ks kp. []),
      make_default_coords =
        (\<lambda>nm sn dn shn pn pd. [(''state'', PList (map PStr sn)),
                                (''shock'', PList (map PStr shn))])\<rparr>"

definition empty_store :: store where
  "empty_store = \<lparr>lists = [], dicts = [], infos = []\<rparr>"

text \<open>
  A store that holds the objects of two components, a trend with one state and an error
  term without states, each with its own lists, dictionaries and component-info table.
\<close>

definition pair_store :: store where
  "pair_store =
     \<lparr>lists = [[''level''], [], [''level''], [''initial_trend'', ''sigma_trend''], [],
               [], [], [], [''sigma_Error''], []],
      dicts = [[], [], [], [], [],
               [(''initial_trend'', PVar (Placeholder ''initial_trend'' [Some 1] ''float64'')),
                (''sigma_trend'', PVar (Placeholder ''sigma_trend'' [Some 1] ''float64''))],
               [],
               [], [], [], [], [],
               [(''sigma_Error'', PVar (Placeholder ''sigma_Error'' [] ''float64''))],
               []],
      infos = [[(''Trend'', \<lparr>ci_k_states = 1, ci_k_enodg = 1, ci_k_posdef = 1,
                             ci_combine_hidden_states = False,
                             ci_obs_state_idx = Some [1]\<rparr>)],
               [(''Error'', \<lparr>ci_k_states = 0, ci_k_enodg = 1, ci_k_posdef = 0,
                             ci_combine_hidden_states = False,
                             ci_obs_state_idx = None\<rparr>)]]\<rparr>"

definition trend_component :: component where
  "trend_component =
     \<lparr>name = ''Trend'', k_endog = 1, k_states = 1, k_posdef = 1, measurement_error = False,
      state_names = 0, data_names = 1, shock_names = 2, param_names = 3, exog_names = 4,
      needs_exog_data = False, coords = 0, param_dims = 1, param_info = 2, data_info = 3,
      param_counts = 4, ssm = PytensorRepresentation demo_externals 1 1 1 [],
      name_to_variable = 5, name_to_data = 6, component_info = 0\<rparr>"

definition error_component :: component where
  "error_component =
     \<lparr>name = ''Error'', k_endog = 1, k_states = 0, k_posdef = 0, measurement_error = True,
      state_names = 5, data_names = 6, shock_names = 7, param_names = 8, exog_names = 9,
      needs_exog_data = False, coords = 7, param_dims = 8, param_info = 9, data_info = 10,
      param_counts = 11, ssm = PytensorRepresentation demo_externals 1 0 0 [],
      name_to_variable = 12, name_to_data = 13, component_info = 1\<rparr>"

text \<open>
  The error term declared with two endogenous variables, as a subclass that passes
  \<^verbatim>\<open>k_endog=2\<close> to the constructor would be.
\<close>

definition wide_error_component :: component where
  "wide_error_component =
     error_component\<lparr>k_endog := 2, ssm := PytensorRepresentation demo_externals 2 0 0 []\<rparr>"

section \<open>Properties\<close>

subsection \<open>The store\<close>

lemma extend_start: "extended h [] [] [] = h"
  by (simp add: extended_def)

lemma alloc_list_extend:
  "alloc_list xs (extended h ls ds is) = (length (lists h) + length ls, extended h (ls @ [xs]) ds is)"
  by (simp add: alloc_list_def extended_def)

lemma alloc_dict_extend:
  "alloc_dict d (extended h ls ds is) = (length (dicts h) + length ds, extended h ls (ds @ [d]) is)"
  by (simp add: alloc_dict_def extended_def)

lemma alloc_info_extend:
  "alloc_info d (extended h ls ds is) = (length (infos h) + length is, extended h ls ds (is @ [d]))"
  by (simp add: alloc_info_def extended_def)

lemma get_list_extend:
  "get_list (extended h ls ds is) r =
     (if r < length (lists h) then get_list h r else ls ! (r - length (lists h)))"
  by (simp add: get_list_def extended_def nth_append)

lemma get_dict_extend:
  "get_dict (extended h ls ds is) r =
     (if r < length (dicts h) then get_dict h r else ds ! (r - length (dicts h)))"
  by (simp add: get_dict_def extended_def nth_append)

lemma get_info_extend:
  "get_info (extended h ls ds is) r =
     (if r < length (infos h) then get_info h r else is ! (r - length (infos h)))"
  by (simp add: get_info_def extended_def nth_append)

lemma set_list_extend:
  "set_list r xs (extended h ls ds is) =
     (if r < length (lists h) then extended (set_list r xs h) ls ds is
      else extended h (ls[r - length (lists h) := xs]) ds is)"
  by (simp add: set_list_def extended_def list_update_append)

lemma set_dict_extend:
  "set_dict r d (extended h ls ds is) =
     (if r < length (dicts h) then extended (set_dict r d h) ls ds is
      else extended h ls (ds[r - length (dicts h) := d]) is)"
  by (simp add: set_dict_def extended_def list_update_append)

lemma length_set_list:
  "length (lists (set_list r xs h)) = length (lists h)"
  "length (dicts (set_list r xs h)) = length (dicts h)"
  "length (infos (set_list r xs h)) = length (infos h)"
  by (simp_all add: set_list_def)

lemma length_set_dict:
  "length (lists (set_dict r d h)) = length (lists h)"
  "length (dicts (set_dict r d h)) = length (dicts h)"
  "length (infos (set_dict r d h)) = length (infos h)"
  by (simp_all add: set_dict_def)

lemma lists_extend: "lists (extended h ls ds is) = lists h @ ls"
  and dicts_extend: "dicts (extended h ls ds is) = dicts h @ ds"
  and infos_extend: "infos (extended h ls ds is) = infos h @ is"
  by (simp_all add: extended_def)

lemma get_list_set_list:
  "get_list (set_list r xs h) r' = (if r' = r \<and> r < length (lists h) then xs else get_list h r')"
  by (auto simp add: get_list_def set_list_def nth_list_update list_update_beyond)

lemma get_dict_set_dict:
  "get_dict (set_dict r d h) r' = (if r' = r \<and> r < length (dicts h) then d else get_dict h r')"
  by (auto simp add: get_dict_def set_dict_def nth_list_update list_update_beyond)

lemma get_other_set:
  "get_dict (set_list r xs h) r' = get_dict h r'"
  "get_info (set_list r xs h) r' = get_info h r'"
  "get_list (set_dict r d h) r' = get_list h r'"
  "get_info (set_dict r d h) r' = get_info h r'"
  by (simp_all add: get_list_def get_dict_def get_info_def set_list_def set_dict_def)

lemmas extend_simps = alloc_list_extend alloc_dict_extend alloc_info_extend
  get_list_extend get_dict_extend get_info_extend set_list_extend set_dict_extend
  copy_list_def copy_dict_def copy_info_def given_or_new_def
  length_set_list length_set_dict get_list_set_list get_dict_set_dict get_other_set
  lists_extend dicts_extend infos_extend

lemma separate_objects_neq:
  "separate_objects c \<Longrightarrow>
     coords c \<noteq> param_dims c \<and>
     coords c \<noteq> param_info c \<and>
     coords c \<noteq> data_info c \<and>
     coords c \<noteq> param_counts c \<and>
     coords c \<noteq> name_to_variable c \<and>
     coords c \<noteq> name_to_data c \<and>
     param_dims c \<noteq> coords c \<and>
     param_dims c \<noteq> param_info c \<and>
     param_dims c \<noteq> data_info c \<and>
     param_dims c \<noteq> param_counts c \<and>
     param_dims c \<noteq> name_to_variable c \<and>
     param_dims c \<noteq> name_to_data c \<and>
     param_info c \<noteq> coords c \<and>
     param_info c \<noteq> param_dims c \<and>
     param_info c \<noteq> data_info c \<and>
     param_info c \<noteq> param_counts c \<and>
     param_info c \<noteq> name_to_variable c \<and>
     param_info c \<noteq> name_to_data c \<and>
     data_info c \<noteq> coords c \<and>
     data_info c \<noteq> param_dims c \<and>
     data_info c \<noteq> param_info c \<and>
     data_info c \<noteq> param_counts c \<and>
     data_info c \<noteq> name_to_variable c \<and>
     data_info c \<noteq> name_to_data c \<and>
     param_counts c \<noteq> coords c \<and>
     param_counts c \<noteq> param_dims c \<and>
     param_counts c \<noteq> param_info c \<and>
     param_counts c \<noteq> data_info c \<and>
     param_counts c \<noteq> name_to_variable c \<and>
     param_counts c \<noteq> name_to_data c \<and>
     name_to_variable c \<noteq> coords c \<and>
     name_to_variable c \<noteq> param_dims c \<and>
     name_to_variable c \<noteq> param_info c \<and>
     name_to_variable c \<noteq> data_info c \<and>
     name_to_variable c \<noteq> param_counts c \<and>
     name_to_variable c \<noteq> name_to_data c \<and>
     name_to_data c \<noteq> coords c \<and>
     name_to_data c \<noteq> param_dims c \<and>
     name_to_data c \<noteq> param_info c \<and>
     name_to_data c \<noteq> data_info c \<and>
     name_to_data c \<noteq> param_counts c \<and>
     name_to_data c \<noteq> name_to_variable c \<and>
     param_names c \<noteq> state_names c \<and>
     state_names c \<noteq> param_names c \<and>
     param_names c \<noteq> data_names c \<and>
     data_names c \<noteq> param_names c \<and>
     param_names c \<noteq> shock_names c \<and>
     shock_names c \<noteq> param_names c \<and>
     param_names c \<noteq> exog_names c \<and>
     exog_names c \<noteq> param_names c"
  by (auto simp add: separate_objects_def)

subsection \<open>Dictionaries\<close>



lemma dict_keys_update: "set (dict_keys (AList.update k v d)) = insert k (set (dict_keys d))"
  by (simp add: dict_keys_def dom_update)

lemma update_fresh: "k \<notin> set (dict_keys d) \<Longrightarrow> AList.update k v d = d @ [(k, v)]"
  by (induction d) (auto simp: dict_keys_def)

subsection \<open>Merging component-info tables\<close>

lemma add_component_info_eq:
  "add_component_info xs acc =
     (if distinct (filter (\<lambda>k. \<not> startswith k ''StateSpace'') (dict_keys xs)) \<and>
         set (filter (\<lambda>k. \<not> startswith k ''StateSpace'') (dict_keys xs)) \<inter> set (dict_keys acc) = {}
      then Inr (acc @ filter (\<lambda>(k, v). \<not> startswith k ''StateSpace'') xs)
      else Inl (ValueError ''Found duplicate component''))"
proof (induction xs arbitrary: acc)
  case Nil
  then show ?case by (simp add: dict_keys_def)
next
  case (Cons x xs)
  obtain k v where x: "x = (k, v)" by (cases x)
  show ?case
  proof (cases "startswith k ''StateSpace''")
    case True
    then show ?thesis using Cons[of acc] by (simp add: x dict_keys_def)
  next
    case False
    show ?thesis
    proof (cases "k \<in> set (dict_keys acc)")
      case True
      then show ?thesis using False by (auto simp add: x dict_keys_def)
    next
      case notin: False
      have "AList.update k v acc = acc @ [(k, v)]" using notin by (rule update_fresh)
      then show ?thesis using False notin Cons[of "acc @ [(k, v)]"]
        by (auto simp add: x dict_keys_def)
    qed
  qed
qed

lemma combine_component_info_eq:
  "combine_component_info a b h =
     (if distinct (component_names h a @ component_names h b)
      then Inr (kept (get_info h (component_info a)) @ kept (get_info h (component_info b)))
      else Inl (ValueError ''Found duplicate component''))"
  by (auto simp add: combine_component_info_def add_component_info_eq component_names_def
      dict_keys_def filter_map o_def case_prod_beta kept_def)

subsection \<open>Composition\<close>

lemmas add_defs = add_def get_combined_shapes_def combine_statespace_representations_def
  combine_property_list_def combine_property_dict_def Component_init_def bind_def
  extend_simps Let_def valid_component_def
  combine_component_info_eq component_names_def make_combined_name_def

text \<open>The three outcomes of a composition, with the store each leaves.\<close>

lemma add_mismatch:
  assumes "k_endog a \<noteq> k_endog b" "valid_component h a" "valid_component h b"
  shows "add ext a b h =
     (Inl (NotImplementedError
             ''Merging elements with different numbers of observed states is not supported.>''),
      extended h
        [get_list h (state_names a) @ get_list h (state_names b),
         get_list h (data_names a) @ get_list h (data_names b),
         get_list h (param_names a) @ get_list h (param_names b),
         get_list h (shock_names a) @ get_list h (shock_names b),
         get_list h (exog_names a) @ get_list h (exog_names b)]
        [dict_update (get_dict h (param_info a)) (get_dict h (param_info b)),
         dict_update (get_dict h (data_info a)) (get_dict h (data_info b)),
         dict_update (get_dict h (param_dims a)) (get_dict h (param_dims b)),
         dict_update (get_dict h (coords a)) (get_dict h (coords b)),
         dict_update (get_dict h (name_to_variable a)) (get_dict h (name_to_variable b)),
         dict_update (get_dict h (name_to_data a)) (get_dict h (name_to_data b))]
        [])"
    (is "_ = ?R")
proof -
  have "add ext a b (extended h [] [] []) = ?R"
    using assms by (simp add: add_defs)
  then show ?thesis by (simp only: extend_start)
qed

lemma add_duplicate:
  assumes "k_endog a = k_endog b" "valid_component h a" "valid_component h b"
    and "\<not> distinct (component_names h a @ component_names h b)"
  shows "add ext a b h =
     (Inl (ValueError ''Found duplicate component''),
      extended h
        [get_list h (state_names a) @ get_list h (state_names b),
         get_list h (data_names a) @ get_list h (data_names b),
         get_list h (param_names a) @ get_list h (param_names b),
         get_list h (shock_names a) @ get_list h (shock_names b),
         get_list h (exog_names a) @ get_list h (exog_names b), [], [], [], [], []]
        [dict_update (get_dict h (param_info a)) (get_dict h (param_info b)),
         dict_update (get_dict h (data_info a)) (get_dict h (data_info b)),
         dict_update (get_dict h (param_dims a)) (get_dict h (param_dims b)),
         dict_update (get_dict h (coords a)) (get_dict h (coords b)),
         dict_update (get_dict h (name_to_variable a)) (get_dict h (name_to_variable b)),
         dict_update (get_dict h (name_to_data a)) (get_dict h (name_to_data b)),
         [], [], [], [], [], [], []]
        [[([], \<lparr>ci_k_states = k_states a + k_states b, ci_k_enodg = 1,
                ci_k_posdef = k_posdef a + k_posdef b,
                ci_combine_hidden_states = True, ci_obs_state_idx = None\<rparr>)]])"
    (is "_ = ?R")
proof -
  have "combine_component_info a b g = Inl (ValueError ''Found duplicate component'')"
    if "get_info g (component_info a) = get_info h (component_info a)"
       "get_info g (component_info b) = get_info h (component_info b)" for g
    using that assms(4) by (simp add: combine_component_info_eq component_names_def)
  then have "add ext a b (extended h [] [] []) = ?R"
    using assms(1-3)
    by (simp add: add_def get_combined_shapes_def combine_statespace_representations_def
          combine_property_list_def combine_property_dict_def Component_init_def bind_def
          extend_simps Let_def valid_component_def)
  then show ?thesis by (simp only: extend_start)
qed

lemma add_success:
  assumes "k_endog a = k_endog b" "valid_component h a" "valid_component h b"
    and "distinct (component_names h a @ component_names h b)"
  shows "add ext a b h =
     (Inr \<lparr>name = ''StateSpace['' @
                   join '', '' (dict_keys (kept (get_info h (component_info a)) @
                                          kept (get_info h (component_info b)))) @ '']'',
           k_endog = 1, k_states = k_states a + k_states b,
           k_posdef = k_posdef a + k_posdef b,
           measurement_error = (measurement_error a \<or> measurement_error b),
           state_names = length (lists h),
           data_names = length (lists h) + 1,
           shock_names = length (lists h) + 3,
           param_names = length (lists h) + 2,
           exog_names = length (lists h) + 4,
           needs_exog_data = False,
           coords = length (dicts h) + 3,
           param_dims = length (dicts h) + 2,
           param_info = length (dicts h),
           data_info = length (dicts h) + 1,
           param_counts = length (dicts h) + 10,
           ssm = PytensorRepresentation ext (k_endog a) (k_states a + k_states b)
                   (k_posdef a + k_posdef b)
                   [(''initial_state'',
                       Op ''concatenate'' [conform (ssm_get (ssm a) ''initial_state'')
                                             (ssm_get (ssm b) ''initial_state'')]),
                    (''initial_state_cov'',
                       Op ''block_diag'' [ssm_get (ssm a) ''initial_state_cov'',
                                          ssm_get (ssm b) ''initial_state_cov'']),
                    (''state_intercept'',
                       Op ''concatenate'' [conform (ssm_get (ssm a) ''state_intercept'')
                                             (ssm_get (ssm b) ''state_intercept'')]),
                    (''obs_intercept'',
                       Op ''add'' [ssm_get (ssm a) ''obs_intercept'',
                                   ssm_get (ssm b) ''obs_intercept'']),
                    (''transition'',
                       Op ''block_diag'' [ssm_get (ssm a) ''transition'',
                                          ssm_get (ssm b) ''transition'']),
                    (''design'',
                       Op ''concatenate_last'' [conform (ssm_get (ssm a) ''design'')
                                                  (ssm_get (ssm b) ''design'')]),
                    (''selection'',
                       Op ''block_diag'' [ssm_get (ssm a) ''selection'',
                                          ssm_get (ssm b) ''selection'']),
                    (''obs_cov'',
                       Op ''add'' [ssm_get (ssm a) ''obs_cov'', ssm_get (ssm b) ''obs_cov'']),
                    (''state_cov'',
                       Op ''block_diag'' [ssm_get (ssm a) ''state_cov'',
                                          ssm_get (ssm b) ''state_cov''])],
           name_to_variable = length (dicts h) + 4,
           name_to_data = length (dicts h) + 5,
           component_info = length (infos h) + 1\<rparr>,
      extended h
        [get_list h (state_names a) @ get_list h (state_names b),
         get_list h (data_names a) @ get_list h (data_names b),
         get_list h (param_names a) @ get_list h (param_names b),
         get_list h (shock_names a) @ get_list h (shock_names b),
         get_list h (exog_names a) @ get_list h (exog_names b), [], [], [], [], []]
        [dict_update (get_dict h (param_info a)) (get_dict h (param_info b)),
         dict_update (get_dict h (data_info a)) (get_dict h (data_info b)),
         dict_update (get_dict h (param_dims a)) (get_dict h (param_dims b)),
         dict_update (get_dict h (coords a)) (get_dict h (coords b)),
         dict_update (get_dict h (name_to_variable a)) (get_dict h (name_to_variable b)),
         dict_update (get_dict h (name_to_data a)) (get_dict h (name_to_data b)),
         [], [], [], [], [], [], []]
        [[([], \<lparr>ci_k_states = k_states a + k_states b, ci_k_enodg = 1,
                ci_k_posdef = k_posdef a + k_posdef b,
                ci_combine_hidden_states = True, ci_obs_state_idx = None\<rparr>)],
         kept (get_info h (component_info a)) @ kept (get_info h (component_info b))])"
    (is "_ = ?R")
proof -
  have "add ext a b (extended h [] [] []) = ?R"
    using assms by (simp add: add_defs)
  then show ?thesis by (simp only: extend_start)
qed

lemma same_objects_extended:
  "valid_component h c \<Longrightarrow> same_objects h (extended h ls ds is) c"
  by (simp add: same_objects_def valid_component_def extend_simps)

lemmas demo_defs = pair_store_def trend_component_def error_component_def
  wide_error_component_def demo_externals_def empty_store_def

lemma demo_valid:
  "valid_component pair_store trend_component"
  "valid_component pair_store error_component"
  "valid_component pair_store wide_error_component"
  by (simp_all add: valid_component_def demo_defs)

lemma demo_names:
  "component_names pair_store trend_component = [''Trend'']"
  "component_names pair_store error_component = [''Error'']"
  "component_names pair_store wide_error_component = [''Error'']"
  by (simp_all add: component_names_def demo_defs get_info_def dict_keys_def startswith_def)

text \<open>
  C9. Evaluating \<open>a + b\<close> only allocates: whatever the outcome, the store afterwards is
  the store before with further objects appended, so every list, dictionary and
  component-info table of either operand holds the same entries as before. When the
  composition returns a component, each of its objects is one of the appended ones, not an
  object of an operand, and they are separate from one another.
\<close>

theorem add_leaves_operands_unchanged:
  assumes "valid_component h a" and "valid_component h b"
  shows "(\<exists>ls ds is. snd (add ext a b h) = extended h ls ds is) \<and>
         same_objects h (snd (add ext a b h)) a \<and>
         same_objects h (snd (add ext a b h)) b \<and>
         (\<forall>c. fst (add ext a b h) = Inr c \<longrightarrow>
              new_objects h c \<and> valid_component (snd (add ext a b h)) c \<and>
              separate_objects c)"
proof (cases "k_endog a = k_endog b")
  case False
  show ?thesis
    using assms by (simp add: add_mismatch[OF False assms] same_objects_extended) blast
next
  case True
  show ?thesis
  proof (cases "distinct (component_names h a @ component_names h b)")
    case False
    show ?thesis
      using assms by (simp add: add_duplicate[OF True assms False] same_objects_extended) blast
  next
    case distinct: True
    have "new_objects h c \<and> valid_component (snd (add ext a b h)) c \<and> separate_objects c"
      if "fst (add ext a b h) = Inr c" for c
      using that
      by (auto simp add: add_success[OF True assms distinct] new_objects_def
          valid_component_def separate_objects_def lists_extend dicts_extend infos_extend)
    moreover have "\<exists>ls ds is. snd (add ext a b h) = extended h ls ds is"
      by (simp add: add_success[OF True assms distinct]) blast
    moreover have "same_objects h (snd (add ext a b h)) a"
      "same_objects h (snd (add ext a b h)) b"
      using assms by (simp_all add: add_success[OF True assms distinct] same_objects_extended)
    ultimately show ?thesis by blast
  qed
qed

text \<open>
  The composition of the trend and the error component of the demonstration store: it
  returns a component, all of whose objects are new, and leaves both operands as they were.
\<close>

theorem add_leaves_operands_unchanged_witness:
  "valid_component pair_store trend_component \<and>
   valid_component pair_store error_component \<and>
   (\<exists>c. fst (add demo_externals trend_component error_component pair_store) = Inr c \<and>
        new_objects pair_store c) \<and>
   same_objects pair_store
     (snd (add demo_externals trend_component error_component pair_store)) trend_component \<and>
   same_objects pair_store
     (snd (add demo_externals trend_component error_component pair_store)) error_component"
proof -
  note t = add_leaves_operands_unchanged [OF demo_valid(1) demo_valid(2), of demo_externals]
  have "k_endog trend_component = k_endog error_component"
    by (simp add: demo_defs)
  moreover have "distinct (component_names pair_store trend_component @
                   component_names pair_store error_component)"
    by (simp add: demo_names)
  ultimately have "\<exists>c. fst (add demo_externals trend_component error_component pair_store) = Inr c"
    by (simp add: add_success[OF _ demo_valid(1) demo_valid(2)])
  with t demo_valid(1,2) show ?thesis by blast
qed

text \<open>
  C6, as the code has it. Composing fails with \<^verbatim>\<open>NotImplementedError\<close> whenever the
  operands' endogenous-variable counts differ. When they are equal, the outcome depends on
  the keys of the two component-info tables that do not start with \<^verbatim>\<open>StateSpace\<close>, which
  is what \<open>component_names\<close> lists (keys that start with \<^verbatim>\<open>StateSpace\<close> are skipped by
  \<^verbatim>\<open>_combine_component_info\<close> and never clash): when one of these keys occurs twice among
  the operands' tables the composition raises a ValueError, and otherwise it returns a
  component. The component returned has the sum of the state counts and the sum of the
  shock counts, its representation has these sums and the shared endogenous-variable
  count, and for operands with one endogenous variable, the count the class supports, its
  own \<^verbatim>\<open>k_endog\<close> is that shared value.
\<close>

theorem add_combined_shapes:
  assumes "valid_component h a" and "valid_component h b"
  shows "(k_endog a \<noteq> k_endog b \<longrightarrow>
            (\<exists>msg. fst (add ext a b h) = Inl (NotImplementedError msg))) \<and>
         (k_endog a = k_endog b \<and> \<not> distinct (component_names h a @ component_names h b) \<longrightarrow>
            (\<exists>msg. fst (add ext a b h) = Inl (ValueError msg))) \<and>
         (k_endog a = k_endog b \<and> distinct (component_names h a @ component_names h b) \<longrightarrow>
            (\<exists>c. fst (add ext a b h) = Inr c \<and>
                 k_states c = k_states a + k_states b \<and>
                 k_posdef c = k_posdef a + k_posdef b \<and>
                 (k_endog a = 1 \<longrightarrow> k_endog c = k_endog a) \<and>
                 r_k_states (ssm c) = k_states a + k_states b \<and>
                 r_k_posdef (ssm c) = k_posdef a + k_posdef b \<and>
                 r_k_endog (ssm c) = k_endog a))"
proof (intro conjI impI)
  assume "k_endog a \<noteq> k_endog b"
  then show "\<exists>msg. fst (add ext a b h) = Inl (NotImplementedError msg)"
    using assms by (simp add: add_mismatch)
next
  assume "k_endog a = k_endog b \<and> \<not> distinct (component_names h a @ component_names h b)"
  then show "\<exists>msg. fst (add ext a b h) = Inl (ValueError msg)"
    using assms by (simp add: add_duplicate)
next
  assume "k_endog a = k_endog b \<and> distinct (component_names h a @ component_names h b)"
  then show "\<exists>c. fst (add ext a b h) = Inr c \<and>
                 k_states c = k_states a + k_states b \<and>
                 k_posdef c = k_posdef a + k_posdef b \<and>
                 (k_endog a = 1 \<longrightarrow> k_endog c = k_endog a) \<and>
                 r_k_states (ssm c) = k_states a + k_states b \<and>
                 r_k_posdef (ssm c) = k_posdef a + k_posdef b \<and>
                 r_k_endog (ssm c) = k_endog a"
    using assms by (simp add: add_success PytensorRepresentation_def)
qed

text \<open>
  The three cases at the demonstration store: the trend with the error term, the trend
  with itself, and the trend with the error term declared with two endogenous variables.
\<close>

theorem add_combined_shapes_witness:
  "valid_component pair_store trend_component \<and>
   valid_component pair_store error_component \<and>
   valid_component pair_store wide_error_component \<and>
   k_endog trend_component = k_endog error_component \<and>
   k_endog trend_component = 1 \<and>
   distinct (component_names pair_store trend_component @
             component_names pair_store error_component) \<and>
   (\<exists>c. fst (add demo_externals trend_component error_component pair_store) = Inr c \<and>
        k_states c = 1 \<and> k_posdef c = 1 \<and> k_endog c = 1 \<and> r_k_endog (ssm c) = 1) \<and>
   \<not> distinct (component_names pair_store trend_component @
               component_names pair_store trend_component) \<and>
   (\<exists>msg. fst (add demo_externals trend_component trend_component pair_store) =
            Inl (ValueError msg)) \<and>
   k_endog trend_component \<noteq> k_endog wide_error_component \<and>
   (\<exists>msg. fst (add demo_externals trend_component wide_error_component pair_store) =
            Inl (NotImplementedError msg))"
proof -
  note ab = add_combined_shapes [OF demo_valid(1) demo_valid(2), of demo_externals]
  note aa = add_combined_shapes [OF demo_valid(1) demo_valid(1), of demo_externals]
  note aw = add_combined_shapes [OF demo_valid(1) demo_valid(3), of demo_externals]
  have e: "k_endog trend_component = k_endog error_component"
    and s: "k_states trend_component + k_states error_component = 1"
           "k_posdef trend_component + k_posdef error_component = 1"
           "k_endog trend_component = 1"
    and n: "k_endog trend_component \<noteq> k_endog wide_error_component"
    by (simp_all add: demo_defs)
  have d: "distinct (component_names pair_store trend_component @
                     component_names pair_store error_component)"
    and nd: "\<not> distinct (component_names pair_store trend_component @
                          component_names pair_store trend_component)"
    by (simp_all add: demo_names)
  from ab e d s
  have 1: "\<exists>c. fst (add demo_externals trend_component error_component pair_store) = Inr c \<and>
        k_states c = 1 \<and> k_posdef c = 1 \<and> k_endog c = 1 \<and> r_k_endog (ssm c) = 1"
    by auto
  from aa nd
  have 2: "\<exists>msg. fst (add demo_externals trend_component trend_component pair_store) =
            Inl (ValueError msg)"
    by blast
  from aw n
  have 3: "\<exists>msg. fst (add demo_externals trend_component wide_error_component pair_store) =
            Inl (NotImplementedError msg)"
    by blast
  from 1 2 3 e d nd n s(3) demo_valid show ?thesis by blast
qed

subsection \<open>Building the model\<close>

lemmas build_defs = build_def StructuralTimeSeries_init_def
  add_inital_state_cov_to_properties_def sts_make_and_register_variable_def pt_tensor_def

lemma dict_keys_dict_update:
  "set (dict_keys (dict_update d e)) = set (dict_keys d) \<union> set (dict_keys e)"
proof (induction e arbitrary: d)
  case Nil
  then show ?case by (simp add: dict_update_def dict_keys_def)
next
  case (Cons x e)
  obtain k v where x: "x = (k, v)" by (cases x)
  have "dict_update d (x # e) = dict_update (AList.update k v d) e"
    by (simp add: dict_update_def x)
  moreover have "dict_keys (x # e) = k # dict_keys e"
    by (simp add: dict_keys_def x)
  ultimately show ?case
    using Cons[of "AList.update k v d"] by (simp add: dict_keys_update)
qed

lemma ssm_get_set: "ssm_get (ssm_set n t r) n' = (if n' = n then t else ssm_get r n')"
  by (simp add: ssm_get_def ssm_set_def update_conv')

lemma ssm_get_shapes_set: "ssm_get (shapes_set n s r) n' = ssm_get r n'"
  by (simp add: ssm_get_def shapes_set_def)

lemma build_success:
  assumes "valid_component h c" and "separate_objects c"
    and "''P0'' \<notin> set (dict_keys (get_dict h (name_to_variable c)))"
  shows "build ext c nm h =
     (Inr \<lparr>sts_name = (case nm of None \<Rightarrow> ''data'' | Some n \<Rightarrow> n),
           sts_state_names = length (lists h),
           sts_data_names = length (lists h) + 1,
           sts_shock_names = length (lists h) + 2,
           sts_param_names = length (lists h) + 3,
           sts_param_dims = length (dicts h),
           sts_coords = coords c,
           sts_param_info = length (dicts h) + 1,
           sts_data_info = length (dicts h) + 2,
           sts_measurement_error = measurement_error c,
           sts_k_endog = r_k_endog (ssm c),
           sts_k_states = r_k_states (ssm c),
           sts_k_posdef = max 1 (r_k_posdef (ssm c)),
           sts_ssm =
             ssm_set ''initial_state_cov''
               (Placeholder ''P0'' [Some (r_k_states (ssm c)), Some (r_k_states (ssm c))]
                  (floatX ext))
               (if r_k_posdef (ssm c) = 0 then
                  ssm_set ''selection'' (Zeros [1, r_k_states (ssm c), 1])
                    (shapes_set ''selection'' [1, r_k_states (ssm c), 1]
                       (ssm_set ''state_cov'' (Zeros [1, 1, 1])
                          (shapes_set ''state_cov'' [1, 1, 1]
                             ((ssm c)\<lparr>r_k_posdef := 1\<rparr>))))
                else ssm c),
           sts_component_info = length (infos h),
           sts_name_to_variable = length (dicts h) + 3,
           sts_name_to_data = length (dicts h) + 4,
           sts_exog_names = length (lists h) + 4,
           sts_needs_exog_data = (get_list h (exog_names c) \<noteq> [])\<rparr>,
      extended (after_build ext c nm h)
        [get_list h (state_names c), get_list h (data_names c), get_list h (shock_names c),
         get_list h (param_names c) @ [''P0''], get_list h (exog_names c)]
        [AList.update ''P0''
           (PTuple [PStr (ALL_STATE_DIM ext), PStr (ALL_STATE_AUX_DIM ext)])
           (get_dict h (param_dims c)),
         AList.update ''P0''
           (PDict [(''shape'', PTuple [PInt (int (r_k_states (ssm c))),
                                     PInt (int (r_k_states (ssm c)))]),
                   (''constraints'', PStr ''Positive semi-definite''),
                   (''dims'', PTuple [PStr (ALL_STATE_DIM ext),
                                     PStr (ALL_STATE_AUX_DIM ext)])])
           (get_dict h (param_info c)),
         get_dict h (data_info c),
         AList.update ''P0''
           (PVar (Placeholder ''P0'' [Some (r_k_states (ssm c)), Some (r_k_states (ssm c))]
                    (floatX ext)))
           (get_dict h (name_to_variable c)),
         get_dict h (name_to_data c)]
        [get_info h (component_info c)])"
    (is "_ = ?R")
proof -
  have "build ext c nm (extended h [] [] []) = ?R"
    using assms(1,3) separate_objects_neq[OF assms(2)]
    by (simp add: build_defs bind_def extend_simps Let_def valid_component_def
        after_build_def)
  then show ?thesis by (simp only: extend_start)
qed

lemma build_failure:
  assumes "valid_component h c" and "separate_objects c"
    and "''P0'' \<in> set (dict_keys (get_dict h (name_to_variable c)))"
  shows "build ext c nm h =
     (Inl (ValueError ''is already a registered placeholder variable''),
      extended (after_build ext c nm h)
        [get_list h (state_names c), get_list h (data_names c), get_list h (shock_names c),
         get_list h (param_names c) @ [''P0''], get_list h (exog_names c)]
        [AList.update ''P0''
           (PTuple [PStr (ALL_STATE_DIM ext), PStr (ALL_STATE_AUX_DIM ext)])
           (get_dict h (param_dims c)),
         AList.update ''P0''
           (PDict [(''shape'', PTuple [PInt (int (r_k_states (ssm c))),
                                     PInt (int (r_k_states (ssm c)))]),
                   (''constraints'', PStr ''Positive semi-definite''),
                   (''dims'', PTuple [PStr (ALL_STATE_DIM ext),
                                     PStr (ALL_STATE_AUX_DIM ext)])])
           (get_dict h (param_info c)),
         get_dict h (data_info c),
         get_dict h (name_to_variable c),
         get_dict h (name_to_data c)]
        [get_info h (component_info c)])"
    (is "_ = ?R")
proof -
  have "build ext c nm (extended h [] [] []) = ?R"
    using assms(1,3) separate_objects_neq[OF assms(2)]
    by (simp add: build_defs bind_def extend_simps Let_def valid_component_def
        after_build_def)
  then show ?thesis by (simp only: extend_start)
qed

text \<open>The objects of the component after a build.\<close>

lemma after_build_objects:
  assumes "valid_component h c" and "separate_objects c"
  shows "get_list (after_build ext c nm h) (param_names c) = get_list h (param_names c) @ [''P0'']"
    and "get_dict (after_build ext c nm h) (param_dims c) =
           AList.update ''P0''
             (PTuple [PStr (ALL_STATE_DIM ext), PStr (ALL_STATE_AUX_DIM ext)])
             (get_dict h (param_dims c))"
    and "get_dict (after_build ext c nm h) (param_info c) =
           AList.update ''P0''
             (PDict [(''shape'', PTuple [PInt (int (r_k_states (ssm c))),
                                       PInt (int (r_k_states (ssm c)))]),
                     (''constraints'', PStr ''Positive semi-definite''),
                     (''dims'', PTuple [PStr (ALL_STATE_DIM ext),
                                       PStr (ALL_STATE_AUX_DIM ext)])])
             (get_dict h (param_info c))"
    and "get_dict (after_build ext c nm h) (name_to_variable c) = get_dict h (name_to_variable c)"
    and "get_list (after_build ext c nm h) (state_names c) = get_list h (state_names c)"
    and "length (lists (after_build ext c nm h)) = length (lists h)"
    and "length (dicts (after_build ext c nm h)) = length (dicts h)"
    and "length (infos (after_build ext c nm h)) = length (infos h)"
  using assms(1) separate_objects_neq[OF assms(2)]
  by (simp_all add: after_build_def extend_simps valid_component_def)

lemmas ctor_defs = LevelTrendComponent_def order_to_mask_def flatnonzero_def Component_init_def
  LevelTrend_populate_def LevelTrend_graph_def bind_def make_and_register_variable_def pt_tensor_def
  dict_keys_def eye_def squared_def MeasurementError_def MeasurementError_populate_def
  MeasurementError_graph_def ssm_set_def ssm_set_at_def ssm_get_def shapes_set_def
  PytensorRepresentation_def LONG_MATRIX_NAMES_def

lemmas freq_defs = FrequencySeasonality_def FrequencySeasonality_populate_def
  FrequencySeasonality_graph_def frequency_transition_block_def str_nat.simps

lemma empty_store_lengths:
  "length (lists empty_store) = 0" "length (dicts empty_store) = 0"
  "length (infos empty_store) = 0"
  by (simp_all add: empty_store_def)

lemma demo_separate:
  "separate_objects trend_component" "separate_objects error_component"
  by (simp_all add: separate_objects_def demo_defs)

lemma demo_unregistered:
  "''P0'' \<notin> set (dict_keys (get_dict pair_store (name_to_variable trend_component)))"
  "''P0'' \<notin> set (dict_keys (get_dict pair_store (name_to_variable error_component)))"
  by (simp_all add: demo_defs get_dict_def dict_keys_def)

lemma valid_component_extended:
  "valid_component h c \<Longrightarrow> length (lists h) = length (lists g) \<Longrightarrow>
   length (dicts h) = length (dicts g) \<Longrightarrow> length (infos h) = length (infos g) \<Longrightarrow>
   valid_component (extended g ls ds is) c"
  by (simp add: valid_component_def lists_extend dicts_extend infos_extend)

text \<open>Whatever its outcome, a build leaves the component valid and its list of parameter
  names one entry longer; the registry of the component is not touched.\<close>

lemma build_effect:
  assumes "valid_component h c" and "separate_objects c"
  shows "valid_component (snd (build ext c nm h)) c"
    and "get_list (snd (build ext c nm h)) (param_names c) =
           get_list h (param_names c) @ [''P0'']"
    and "get_dict (snd (build ext c nm h)) (name_to_variable c) =
           get_dict h (name_to_variable c)"
    and "''P0'' \<in> set (dict_keys (get_dict (snd (build ext c nm h)) (param_dims c)))"
    and "''P0'' \<in> set (dict_keys (get_dict (snd (build ext c nm h)) (param_info c)))"
proof -
  note ab = after_build_objects[OF assms, of ext nm]
  have v: "param_names c < length (lists h)" "name_to_variable c < length (dicts h)"
    "param_dims c < length (dicts h)" "param_info c < length (dicts h)"
    using assms(1) by (simp_all add: valid_component_def)
  show "valid_component (snd (build ext c nm h)) c"
    "get_list (snd (build ext c nm h)) (param_names c) = get_list h (param_names c) @ [''P0'']"
    "get_dict (snd (build ext c nm h)) (name_to_variable c) = get_dict h (name_to_variable c)"
    "''P0'' \<in> set (dict_keys (get_dict (snd (build ext c nm h)) (param_dims c)))"
    "''P0'' \<in> set (dict_keys (get_dict (snd (build ext c nm h)) (param_info c)))"
    using v
    by (cases "''P0'' \<in> set (dict_keys (get_dict h (name_to_variable c)))";
        simp add: build_failure[OF assms] build_success[OF assms] ab get_list_extend
          get_dict_extend valid_component_extended[OF assms(1)] dict_keys_update)+
qed

lemma build_returns:
  assumes "valid_component h c" and "separate_objects c"
  shows "(\<exists>m. fst (build ext c nm h) = Inr m) \<longleftrightarrow>
         ''P0'' \<notin> set (dict_keys (get_dict h (name_to_variable c)))"
  by (cases "''P0'' \<in> set (dict_keys (get_dict h (name_to_variable c)))")
     (simp_all add: build_failure[OF assms] build_success[OF assms])

lemma build_param_names:
  assumes "valid_component h c" and "separate_objects c"
    and "fst (build ext c nm h) = Inr m"
  shows "get_list (snd (build ext c nm h)) (sts_param_names m) =
           get_list h (param_names c) @ [''P0'']"
    and "sts_k_states m = r_k_states (ssm c)"
proof -
  note ab = after_build_objects[OF assms(1,2), of ext nm]
  have u: "''P0'' \<notin> set (dict_keys (get_dict h (name_to_variable c)))"
    using build_returns[OF assms(1,2), of ext nm] assms(3) by blast
  show "get_list (snd (build ext c nm h)) (sts_param_names m) =
           get_list h (param_names c) @ [''P0'']"
    "sts_k_states m = r_k_states (ssm c)"
    using assms(3) by (auto simp add: build_success[OF assms(1,2) u] get_list_extend ab)
qed

text \<open>
  C10, as the code has it. Let the references of a component point into the store, its
  seven dictionaries be separate objects and its list of parameter names be shared with
  none of its other name lists. \<^verbatim>\<open>c.build()\<close> writes into the component's own objects:
  whatever the outcome, the component's list of parameter names has \<^verbatim>\<open>"P0"\<close> appended in
  place and its dictionaries \<^verbatim>\<open>param_dims\<close> and \<^verbatim>\<open>param_info\<close> have a \<^verbatim>\<open>"P0"\<close> entry.
  When \<^verbatim>\<open>"P0"\<close> is not a registered placeholder of the component, the build returns a
  model, whose parameter names are the component's old ones followed by \<^verbatim>\<open>"P0"\<close>, and a
  second build of the same component returns a model again, whose parameter names end in
  \<^verbatim>\<open>"P0"\<close> twice, as the component's own list then does. When \<^verbatim>\<open>"P0"\<close> is a registered
  placeholder of the component, the first build and the second both raise a ValueError,
  and the component's list still ends in \<^verbatim>\<open>"P0"\<close> twice after the second.
\<close>

theorem build_mutates_component:
  assumes "valid_component h c" and "separate_objects c"
  shows "get_list (snd (build ext c nm h)) (param_names c) =
           get_list h (param_names c) @ [''P0''] \<and>
         ''P0'' \<in> set (dict_keys (get_dict (snd (build ext c nm h)) (param_dims c))) \<and>
         ''P0'' \<in> set (dict_keys (get_dict (snd (build ext c nm h)) (param_info c))) \<and>
         get_list (snd (build ext c nm2 (snd (build ext c nm h)))) (param_names c) =
           get_list h (param_names c) @ [''P0'', ''P0''] \<and>
         (''P0'' \<notin> set (dict_keys (get_dict h (name_to_variable c))) \<longrightarrow>
            (\<exists>m m2. fst (build ext c nm h) = Inr m \<and>
               get_list (snd (build ext c nm h)) (sts_param_names m) =
                 get_list h (param_names c) @ [''P0''] \<and>
               fst (build ext c nm2 (snd (build ext c nm h))) = Inr m2 \<and>
               get_list (snd (build ext c nm2 (snd (build ext c nm h)))) (sts_param_names m2) =
                 get_list h (param_names c) @ [''P0'', ''P0''])) \<and>
         (''P0'' \<in> set (dict_keys (get_dict h (name_to_variable c))) \<longrightarrow>
            (\<exists>msg. fst (build ext c nm h) = Inl (ValueError msg)) \<and>
            (\<exists>msg. fst (build ext c nm2 (snd (build ext c nm h))) = Inl (ValueError msg)))"
proof -
  let ?h1 = "snd (build ext c nm h)"
  note e = build_effect[OF assms, of ext nm]
  note e2 = build_effect[OF e(1) assms(2), of ext nm2]
  have twice: "get_list (snd (build ext c nm2 ?h1)) (param_names c) =
                 get_list h (param_names c) @ [''P0'', ''P0'']"
    by (simp add: e2(2) e(2))
  have returns: "\<exists>m m2. fst (build ext c nm h) = Inr m \<and>
               get_list ?h1 (sts_param_names m) = get_list h (param_names c) @ [''P0''] \<and>
               fst (build ext c nm2 ?h1) = Inr m2 \<and>
               get_list (snd (build ext c nm2 ?h1)) (sts_param_names m2) =
                 get_list h (param_names c) @ [''P0'', ''P0'']"
    if u: "''P0'' \<notin> set (dict_keys (get_dict h (name_to_variable c)))"
  proof -
    obtain m where m: "fst (build ext c nm h) = Inr m"
      using build_returns[OF assms, of ext nm] u by blast
    have "''P0'' \<notin> set (dict_keys (get_dict ?h1 (name_to_variable c)))"
      using u by (simp add: e(3))
    then obtain m2 where m2: "fst (build ext c nm2 ?h1) = Inr m2"
      using build_returns[OF e(1) assms(2), of ext nm2] by blast
    have "get_list (snd (build ext c nm2 ?h1)) (sts_param_names m2) =
            get_list ?h1 (param_names c) @ [''P0'']"
      by (rule build_param_names(1)[OF e(1) assms(2) m2])
    then have "get_list (snd (build ext c nm2 ?h1)) (sts_param_names m2) =
            get_list h (param_names c) @ [''P0'', ''P0'']"
      by (simp add: e(2))
    with m m2 build_param_names(1)[OF assms m] show ?thesis by blast
  qed
  have raises: "(\<exists>msg. fst (build ext c nm h) = Inl (ValueError msg)) \<and>
                (\<exists>msg. fst (build ext c nm2 ?h1) = Inl (ValueError msg))"
    if r: "''P0'' \<in> set (dict_keys (get_dict h (name_to_variable c)))"
  proof -
    have r1: "''P0'' \<in> set (dict_keys (get_dict ?h1 (name_to_variable c)))"
      using r by (simp add: e(3))
    have "fst (build ext c nm h) =
            Inl (ValueError ''is already a registered placeholder variable'')"
      by (simp only: build_failure[OF assms r] fst_conv)
    moreover have "fst (build ext c nm2 ?h1) =
            Inl (ValueError ''is already a registered placeholder variable'')"
      by (simp only: build_failure[OF e(1) assms(2) r1] fst_conv)
    ultimately show ?thesis by blast
  qed
  show ?thesis
    using e(2,4,5) twice returns raises by blast
qed

text \<open>
  Two builds of the trend component of the demonstration store, in which \<^verbatim>\<open>"P0"\<close> is not
  registered: its parameter names become \<open>initial_trend, sigma_trend, P0\<close> and then end in
  \<open>P0\<close> twice. And two builds of \<^verbatim>\<open>FrequencySeasonality(4, n=2, name="P0", innovations=False)\<close>,
  whose only parameter is called \<open>P0\<close>: both raise, and the list of parameter names grows
  from \<open>P0\<close> to three times \<open>P0\<close>.
\<close>

theorem build_mutates_component_witness:
  "valid_component pair_store trend_component \<and> separate_objects trend_component \<and>
   ''P0'' \<notin> set (dict_keys (get_dict pair_store (name_to_variable trend_component))) \<and>
   get_list pair_store (param_names trend_component) = [''initial_trend'', ''sigma_trend''] \<and>
   get_list (snd (build demo_externals trend_component None pair_store))
     (param_names trend_component) = [''initial_trend'', ''sigma_trend'', ''P0''] \<and>
   (\<exists>m m2. fst (build demo_externals trend_component None pair_store) = Inr m \<and>
      fst (build demo_externals trend_component None
             (snd (build demo_externals trend_component None pair_store))) = Inr m2 \<and>
      get_list (snd (build demo_externals trend_component None
                       (snd (build demo_externals trend_component None pair_store))))
        (sts_param_names m2) = [''initial_trend'', ''sigma_trend'', ''P0'', ''P0'']) \<and>
   (\<exists>f h. FrequencySeasonality demo_externals 4 (Some 2) (Some ''P0'') False empty_store =
             (Inr f, h) \<and>
      valid_component h (fs_component f) \<and> separate_objects (fs_component f) \<and>
      ''P0'' \<in> set (dict_keys (get_dict h (name_to_variable (fs_component f)))) \<and>
      get_list h (param_names (fs_component f)) = [''P0''] \<and>
      (\<exists>msg. fst (build demo_externals (fs_component f) None h) = Inl (ValueError msg)) \<and>
      (\<exists>msg. fst (build demo_externals (fs_component f) None
                    (snd (build demo_externals (fs_component f) None h))) =
               Inl (ValueError msg)) \<and>
      get_list (snd (build demo_externals (fs_component f) None
                       (snd (build demo_externals (fs_component f) None h))))
        (param_names (fs_component f)) = [''P0'', ''P0'', ''P0''])"
proof -
  note t = build_mutates_component [OF demo_valid(1) demo_separate(1),
      of demo_externals None None]
  have p: "get_list pair_store (param_names trend_component) =
             [''initial_trend'', ''sigma_trend'']"
    by (simp add: demo_defs get_list_def)
  have 1: "get_list (snd (build demo_externals trend_component None pair_store))
     (param_names trend_component) = [''initial_trend'', ''sigma_trend'', ''P0'']"
    using t p by simp
  have 2: "\<exists>m m2. fst (build demo_externals trend_component None pair_store) = Inr m \<and>
      fst (build demo_externals trend_component None
             (snd (build demo_externals trend_component None pair_store))) = Inr m2 \<and>
      get_list (snd (build demo_externals trend_component None
                       (snd (build demo_externals trend_component None pair_store))))
        (sts_param_names m2) = [''initial_trend'', ''sigma_trend'', ''P0'', ''P0'']"
    using t p demo_unregistered(1) by auto
  have "\<exists>f h. FrequencySeasonality demo_externals 4 (Some 2) (Some ''P0'') False
                 (extended empty_store [] [] []) = (Inr f, h) \<and>
      valid_component h (fs_component f) \<and> separate_objects (fs_component f) \<and>
      ''P0'' \<in> set (dict_keys (get_dict h (name_to_variable (fs_component f)))) \<and>
      get_list h (param_names (fs_component f)) = [''P0'']"
    by (simp add: ctor_defs freq_defs extend_simps Let_def empty_store_lengths
        demo_externals_def eval_nat_numeral valid_component_def separate_objects_def)
  then obtain f h where
    f: "FrequencySeasonality demo_externals 4 (Some 2) (Some ''P0'') False empty_store =
          (Inr f, h)"
    and v: "valid_component h (fs_component f)" and s: "separate_objects (fs_component f)"
    and r: "''P0'' \<in> set (dict_keys (get_dict h (name_to_variable (fs_component f))))"
    and q: "get_list h (param_names (fs_component f)) = [''P0'']"
    unfolding extend_start by blast
  note u = build_mutates_component [OF v s, of demo_externals None None]
  have 3: "(\<exists>msg. fst (build demo_externals (fs_component f) None h) = Inl (ValueError msg)) \<and>
      (\<exists>msg. fst (build demo_externals (fs_component f) None
                    (snd (build demo_externals (fs_component f) None h))) =
               Inl (ValueError msg)) \<and>
      get_list (snd (build demo_externals (fs_component f) None
                       (snd (build demo_externals (fs_component f) None h))))
        (param_names (fs_component f)) = [''P0'', ''P0'', ''P0'']"
    using u r q by simp
  from 1 2 3 f v s r q p demo_valid(1) demo_separate(1) demo_unregistered(1)
  show ?thesis by blast
qed

text \<open>
  C10 as stated fails for a component in which \<^verbatim>\<open>"P0"\<close> is a registered placeholder:
  \<^verbatim>\<open>FrequencySeasonality(4, n=2, name="P0", innovations=False)\<close> registers its coefficients
  under its own name, and building it raises a ValueError, the first time and the second,
  so no model is produced.
\<close>

theorem build_registered_counterexample:
  "map_sum id (\<lambda>f. (name (fs_component f), k_states (fs_component f)))
     (fst (FrequencySeasonality demo_externals 4 (Some 2) (Some ''P0'') False empty_store)) =
     Inr (''P0'', 4) \<and>
   fst (bind (FrequencySeasonality demo_externals 4 (Some 2) (Some ''P0'') False)
          (\<lambda>f. build demo_externals (fs_component f) None) empty_store) =
     Inl (ValueError ''is already a registered placeholder variable'') \<and>
   fst (bind (FrequencySeasonality demo_externals 4 (Some 2) (Some ''P0'') False)
          (\<lambda>f h. build demo_externals (fs_component f) None
                   (snd (build demo_externals (fs_component f) None h))) empty_store) =
     Inl (ValueError ''is already a registered placeholder variable'')"
proof -
  have "map_sum id (\<lambda>f. (name (fs_component f), k_states (fs_component f)))
     (fst (FrequencySeasonality demo_externals 4 (Some 2) (Some ''P0'') False
             (extended empty_store [] [] []))) = Inr (''P0'', 4)"
    by (simp add: ctor_defs freq_defs extend_simps Let_def empty_store_lengths
        demo_externals_def eval_nat_numeral)
  moreover have "fst (bind (FrequencySeasonality demo_externals 4 (Some 2) (Some ''P0'') False)
          (\<lambda>f. build demo_externals (fs_component f) None)
          (extended empty_store [] [] [])) =
     Inl (ValueError ''is already a registered placeholder variable'')"
    by (simp add: ctor_defs freq_defs build_defs extend_simps Let_def empty_store_lengths
        demo_externals_def eval_nat_numeral)
  moreover have "fst (bind (FrequencySeasonality demo_externals 4 (Some 2) (Some ''P0'') False)
          (\<lambda>f h. build demo_externals (fs_component f) None
                   (snd (build demo_externals (fs_component f) None h)))
          (extended empty_store [] [] [])) =
     Inl (ValueError ''is already a registered placeholder variable'')"
    by (simp add: ctor_defs freq_defs build_defs extend_simps Let_def empty_store_lengths
        demo_externals_def eval_nat_numeral)
  ultimately show ?thesis by (simp only: extend_start)
qed

lemma map_of_shapes_set:
  "map_of (shapes (shapes_set n s r)) n' = (if n' = n then Some s else map_of (shapes r) n')"
  by (simp add: shapes_set_def update_conv')

lemma shapes_ssm_set: "shapes (ssm_set n t r) = shapes r"
  and r_k_posdef_ssm_set: "r_k_posdef (ssm_set n t r) = r_k_posdef r"
  and r_k_posdef_shapes_set: "r_k_posdef (shapes_set n s r) = r_k_posdef r"
  by (simp_all add: ssm_set_def shapes_set_def)

text \<open>
  C7, as the code has it. Let the references of a component point into the store, its
  seven dictionaries be separate objects, its list of parameter names be shared with none
  of its other name lists, and its representation carry the component's own numbers of
  states and shocks. When \<^verbatim>\<open>"P0"\<close> is already a registered placeholder of the component,
  building it raises a ValueError. Otherwise building it returns a model. When the
  component has no shocks, the model's state covariance is the zero tensor of shape
  \<open>(1, 1, 1)\<close> and its selection matrix the zero tensor of shape \<open>(1, k_states, 1)\<close>, a
  column with one row per state, with these shapes recorded and the number of shocks set
  to 1. When the component has shocks, both matrices, the recorded shapes and the number
  of shocks are those of the component.
\<close>

theorem build_noise_free_matrices:
  assumes "valid_component h c" and "separate_objects c"
    and "r_k_posdef (ssm c) = k_posdef c" and "r_k_states (ssm c) = k_states c"
  shows "(''P0'' \<in> set (dict_keys (get_dict h (name_to_variable c))) \<longrightarrow>
            (\<exists>msg. fst (build ext c nm h) = Inl (ValueError msg))) \<and>
         (''P0'' \<notin> set (dict_keys (get_dict h (name_to_variable c))) \<longrightarrow>
            (\<exists>m. fst (build ext c nm h) = Inr m \<and> sts_k_states m = k_states c \<and>
               (k_posdef c = 0 \<longrightarrow>
                  ssm_get (sts_ssm m) ''state_cov'' = Zeros [1, 1, 1] \<and>
                  ssm_get (sts_ssm m) ''selection'' = Zeros [1, k_states c, 1] \<and>
                  map_of (shapes (sts_ssm m)) ''state_cov'' = Some [1, 1, 1] \<and>
                  map_of (shapes (sts_ssm m)) ''selection'' = Some [1, k_states c, 1] \<and>
                  r_k_posdef (sts_ssm m) = 1 \<and> sts_k_posdef m = 1) \<and>
               (0 < k_posdef c \<longrightarrow>
                  ssm_get (sts_ssm m) ''state_cov'' = ssm_get (ssm c) ''state_cov'' \<and>
                  ssm_get (sts_ssm m) ''selection'' = ssm_get (ssm c) ''selection'' \<and>
                  shapes (sts_ssm m) = shapes (ssm c) \<and>
                  r_k_posdef (sts_ssm m) = k_posdef c \<and> sts_k_posdef m = k_posdef c)))"
proof (intro conjI impI)
  assume r: "''P0'' \<in> set (dict_keys (get_dict h (name_to_variable c)))"
  have "fst (build ext c nm h) =
          Inl (ValueError ''is already a registered placeholder variable'')"
    by (simp only: build_failure[OF assms(1,2) r] fst_conv)
  then show "\<exists>msg. fst (build ext c nm h) = Inl (ValueError msg)"
    by blast
next
  assume u: "''P0'' \<notin> set (dict_keys (get_dict h (name_to_variable c)))"
  show "\<exists>m. fst (build ext c nm h) = Inr m \<and> sts_k_states m = k_states c \<and>
           (k_posdef c = 0 \<longrightarrow>
              ssm_get (sts_ssm m) ''state_cov'' = Zeros [1, 1, 1] \<and>
              ssm_get (sts_ssm m) ''selection'' = Zeros [1, k_states c, 1] \<and>
              map_of (shapes (sts_ssm m)) ''state_cov'' = Some [1, 1, 1] \<and>
              map_of (shapes (sts_ssm m)) ''selection'' = Some [1, k_states c, 1] \<and>
              r_k_posdef (sts_ssm m) = 1 \<and> sts_k_posdef m = 1) \<and>
           (0 < k_posdef c \<longrightarrow>
              ssm_get (sts_ssm m) ''state_cov'' = ssm_get (ssm c) ''state_cov'' \<and>
              ssm_get (sts_ssm m) ''selection'' = ssm_get (ssm c) ''selection'' \<and>
              shapes (sts_ssm m) = shapes (ssm c) \<and>
              r_k_posdef (sts_ssm m) = k_posdef c \<and> sts_k_posdef m = k_posdef c)"
    using assms(3,4)
    by (simp add: build_success[OF assms(1,2) u] ssm_get_set ssm_get_shapes_set
        map_of_shapes_set shapes_ssm_set r_k_posdef_ssm_set r_k_posdef_shapes_set)
qed

lemma demo_sizes:
  "r_k_posdef (ssm trend_component) = k_posdef trend_component"
  "r_k_states (ssm trend_component) = k_states trend_component"
  "k_posdef trend_component = 1" "k_states trend_component = 1"
  by (simp_all add: demo_defs PytensorRepresentation_def)

text \<open>
  The three cases. The deterministic trend \<^verbatim>\<open>LevelTrendComponent(order=2, innovations_order=0)\<close>
  has two states and no shocks: the model built from it has the dummy matrices, the
  selection matrix with two rows. The trend component of the demonstration store has one
  shock: its matrices are left as they are. And
  \<^verbatim>\<open>FrequencySeasonality(4, n=2, name="P0", innovations=False)\<close> has \<^verbatim>\<open>"P0"\<close> registered:
  building it raises.
\<close>

theorem build_noise_free_matrices_witness:
  "(\<exists>c h. LevelTrendComponent demo_externals (Count 2) (Some (Count 0)) ''LevelTrend''
             empty_store = (Inr c, h) \<and>
      valid_component h c \<and> separate_objects c \<and>
      r_k_posdef (ssm c) = k_posdef c \<and> r_k_states (ssm c) = k_states c \<and>
      ''P0'' \<notin> set (dict_keys (get_dict h (name_to_variable c))) \<and>
      k_posdef c = 0 \<and> k_states c = 2 \<and>
      (\<exists>m. fst (build demo_externals c None h) = Inr m \<and>
           ssm_get (sts_ssm m) ''state_cov'' = Zeros [1, 1, 1] \<and>
           ssm_get (sts_ssm m) ''selection'' = Zeros [1, 2, 1] \<and>
           map_of (shapes (sts_ssm m)) ''selection'' = Some [1, 2, 1] \<and>
           sts_k_posdef m = 1)) \<and>
   valid_component pair_store trend_component \<and> separate_objects trend_component \<and>
   r_k_posdef (ssm trend_component) = k_posdef trend_component \<and>
   r_k_states (ssm trend_component) = k_states trend_component \<and>
   ''P0'' \<notin> set (dict_keys (get_dict pair_store (name_to_variable trend_component))) \<and>
   0 < k_posdef trend_component \<and>
   (\<exists>m. fst (build demo_externals trend_component None pair_store) = Inr m \<and>
        ssm_get (sts_ssm m) ''selection'' = ssm_get (ssm trend_component) ''selection'' \<and>
        sts_k_posdef m = 1) \<and>
   (\<exists>f h. FrequencySeasonality demo_externals 4 (Some 2) (Some ''P0'') False empty_store =
             (Inr f, h) \<and>
      valid_component h (fs_component f) \<and> separate_objects (fs_component f) \<and>
      r_k_posdef (ssm (fs_component f)) = k_posdef (fs_component f) \<and>
      r_k_states (ssm (fs_component f)) = k_states (fs_component f) \<and>
      ''P0'' \<in> set (dict_keys (get_dict h (name_to_variable (fs_component f)))) \<and>
      (\<exists>msg. fst (build demo_externals (fs_component f) None h) = Inl (ValueError msg)))"
proof -
  have "\<exists>c h. LevelTrendComponent demo_externals (Count 2) (Some (Count 0)) ''LevelTrend''
             (extended empty_store [] [] []) = (Inr c, h) \<and>
      valid_component h c \<and> separate_objects c \<and>
      r_k_posdef (ssm c) = k_posdef c \<and> r_k_states (ssm c) = k_states c \<and>
      ''P0'' \<notin> set (dict_keys (get_dict h (name_to_variable c))) \<and>
      k_posdef c = 0 \<and> k_states c = 2"
    by (simp add: ctor_defs extend_simps Let_def empty_store_lengths demo_externals_def
        numeral_2_eq_2 valid_component_def separate_objects_def)
  then obtain c h where
    c: "LevelTrendComponent demo_externals (Count 2) (Some (Count 0)) ''LevelTrend''
          empty_store = (Inr c, h)"
    and v: "valid_component h c" and s: "separate_objects c"
    and z: "r_k_posdef (ssm c) = k_posdef c" "r_k_states (ssm c) = k_states c"
    and u: "''P0'' \<notin> set (dict_keys (get_dict h (name_to_variable c)))"
    and k: "k_posdef c = 0" "k_states c = 2"
    unfolding extend_start by blast
  note d = build_noise_free_matrices [OF v s z, of demo_externals None]
  have 1: "\<exists>m. fst (build demo_externals c None h) = Inr m \<and>
           ssm_get (sts_ssm m) ''state_cov'' = Zeros [1, 1, 1] \<and>
           ssm_get (sts_ssm m) ''selection'' = Zeros [1, 2, 1] \<and>
           map_of (shapes (sts_ssm m)) ''selection'' = Some [1, 2, 1] \<and>
           sts_k_posdef m = 1"
    using d u k by auto
  note t = build_noise_free_matrices [OF demo_valid(1) demo_separate(1) demo_sizes(1)
      demo_sizes(2), of demo_externals None]
  have 2: "\<exists>m. fst (build demo_externals trend_component None pair_store) = Inr m \<and>
        ssm_get (sts_ssm m) ''selection'' = ssm_get (ssm trend_component) ''selection'' \<and>
        sts_k_posdef m = 1"
    using t demo_unregistered(1) by (auto simp add: demo_sizes)
  have p: "0 < k_posdef trend_component" by (simp add: demo_sizes)
  have "\<exists>f h. FrequencySeasonality demo_externals 4 (Some 2) (Some ''P0'') False
                 (extended empty_store [] [] []) = (Inr f, h) \<and>
      valid_component h (fs_component f) \<and> separate_objects (fs_component f) \<and>
      r_k_posdef (ssm (fs_component f)) = k_posdef (fs_component f) \<and>
      r_k_states (ssm (fs_component f)) = k_states (fs_component f) \<and>
      ''P0'' \<in> set (dict_keys (get_dict h (name_to_variable (fs_component f))))"
    by (simp add: ctor_defs freq_defs extend_simps Let_def empty_store_lengths
        demo_externals_def eval_nat_numeral valid_component_def separate_objects_def)
  then obtain f g where
    f: "FrequencySeasonality demo_externals 4 (Some 2) (Some ''P0'') False empty_store =
          (Inr f, g)"
    and fv: "valid_component g (fs_component f)" and fs: "separate_objects (fs_component f)"
    and fz: "r_k_posdef (ssm (fs_component f)) = k_posdef (fs_component f)"
            "r_k_states (ssm (fs_component f)) = k_states (fs_component f)"
    and fr: "''P0'' \<in> set (dict_keys (get_dict g (name_to_variable (fs_component f))))"
    unfolding extend_start by blast
  note e = build_noise_free_matrices [OF fv fs fz, of demo_externals None]
  have 3: "\<exists>msg. fst (build demo_externals (fs_component f) None g) = Inl (ValueError msg)"
    using e fr by blast
  have a: "\<exists>c h. LevelTrendComponent demo_externals (Count 2) (Some (Count 0)) ''LevelTrend''
             empty_store = (Inr c, h) \<and>
      valid_component h c \<and> separate_objects c \<and>
      r_k_posdef (ssm c) = k_posdef c \<and> r_k_states (ssm c) = k_states c \<and>
      ''P0'' \<notin> set (dict_keys (get_dict h (name_to_variable c))) \<and>
      k_posdef c = 0 \<and> k_states c = 2 \<and>
      (\<exists>m. fst (build demo_externals c None h) = Inr m \<and>
           ssm_get (sts_ssm m) ''state_cov'' = Zeros [1, 1, 1] \<and>
           ssm_get (sts_ssm m) ''selection'' = Zeros [1, 2, 1] \<and>
           map_of (shapes (sts_ssm m)) ''selection'' = Some [1, 2, 1] \<and>
           sts_k_posdef m = 1)"
    using c v s z u k 1 by blast
  have b: "\<exists>f h. FrequencySeasonality demo_externals 4 (Some 2) (Some ''P0'') False
                   empty_store = (Inr f, h) \<and>
      valid_component h (fs_component f) \<and> separate_objects (fs_component f) \<and>
      r_k_posdef (ssm (fs_component f)) = k_posdef (fs_component f) \<and>
      r_k_states (ssm (fs_component f)) = k_states (fs_component f) \<and>
      ''P0'' \<in> set (dict_keys (get_dict h (name_to_variable (fs_component f)))) \<and>
      (\<exists>msg. fst (build demo_externals (fs_component f) None h) = Inl (ValueError msg))"
    using f fv fs fz fr 3 by blast
  from a b 2 p demo_valid(1) demo_separate(1) demo_sizes(1,2) demo_unregistered(1)
  show ?thesis by blast
qed

text \<open>
  C7 as stated fails on the size of the selection matrix: the deterministic trend
  \<^verbatim>\<open>LevelTrendComponent(order=2, innovations_order=0)\<close> has two states and no shocks, and
  the model built from it has the zero tensor of shape \<open>(1, 2, 1)\<close> as selection matrix,
  two rows and one column, not a matrix of size one by one.
\<close>

theorem build_selection_counterexample:
  "map_sum id (\<lambda>c. (k_states c, k_posdef c))
     (fst (LevelTrendComponent demo_externals (Count 2) (Some (Count 0)) ''LevelTrend''
             empty_store)) = Inr (2, 0) \<and>
   map_sum id (\<lambda>m. ssm_get (sts_ssm m) ''selection'')
     (fst (bind (LevelTrendComponent demo_externals (Count 2) (Some (Count 0)) ''LevelTrend'')
                (\<lambda>c. build demo_externals c None) empty_store)) =
   Inr (Zeros [1, 2, 1])"
proof -
  have "map_sum id (\<lambda>c. (k_states c, k_posdef c))
     (fst (LevelTrendComponent demo_externals (Count 2) (Some (Count 0)) ''LevelTrend''
             (extended empty_store [] [] []))) = Inr (2, 0)"
    by (simp add: ctor_defs extend_simps Let_def empty_store_lengths demo_externals_def
        numeral_2_eq_2)
  moreover have "map_sum id (\<lambda>m. ssm_get (sts_ssm m) ''selection'')
     (fst (bind (LevelTrendComponent demo_externals (Count 2) (Some (Count 0)) ''LevelTrend'')
                (\<lambda>c. build demo_externals c None) (extended empty_store [] [] []))) =
   Inr (Zeros [1, 2, 1])"
    by (simp add: ctor_defs build_defs extend_simps Let_def empty_store_lengths
        demo_externals_def numeral_2_eq_2)
  ultimately show ?thesis by (simp only: extend_start)
qed

text \<open>
  C1, as the code has it. Let two components have equal endogenous-variable counts, let
  no component name occur twice among their component-info tables and let \<^verbatim>\<open>"P0"\<close> be
  registered in neither. Then \<open>a + b\<close> returns a component, building it returns a model,
  the model's state count is the state count of the composed representation, that is
  \<open>a.k_states + b.k_states\<close>, and the model's parameter names are those of \<open>a\<close>, then
  those of \<open>b\<close>, then \<^verbatim>\<open>"P0"\<close>.
\<close>

theorem add_then_build:
  assumes "valid_component h a" and "valid_component h b"
    and "k_endog a = k_endog b"
    and "distinct (component_names h a @ component_names h b)"
    and "''P0'' \<notin> set (dict_keys (get_dict h (name_to_variable a)))"
    and "''P0'' \<notin> set (dict_keys (get_dict h (name_to_variable b)))"
  shows "\<exists>c m. fst (add ext a b h) = Inr c \<and>
           fst (build ext c nm (snd (add ext a b h))) = Inr m \<and>
           sts_k_states m = k_states a + k_states b \<and>
           get_list (snd (build ext c nm (snd (add ext a b h)))) (sts_param_names m) =
             get_list h (param_names a) @ get_list h (param_names b) @ [''P0'']"
proof -
  let ?h1 = "snd (add ext a b h)"
  note s = add_success[OF assms(3,1,2,4), of ext]
  obtain c where c: "fst (add ext a b h) = Inr c"
    by (simp add: s)
  have v: "valid_component ?h1 c" and sep: "separate_objects c"
    using c
    by (auto simp add: s valid_component_def separate_objects_def lists_extend dicts_extend
        infos_extend)
  have reg: "get_dict ?h1 (name_to_variable c) =
               dict_update (get_dict h (name_to_variable a)) (get_dict h (name_to_variable b))"
    and pn: "get_list ?h1 (param_names c) =
               get_list h (param_names a) @ get_list h (param_names b)"
    and ks: "r_k_states (ssm c) = k_states a + k_states b"
    using c by (auto simp add: s get_dict_extend get_list_extend PytensorRepresentation_def)
  have "''P0'' \<notin> set (dict_keys (get_dict ?h1 (name_to_variable c)))"
    using assms(5,6) by (simp add: reg dict_keys_dict_update)
  then obtain m where m: "fst (build ext c nm ?h1) = Inr m"
    using build_returns[OF v sep, of ext nm] by blast
  have "get_list (snd (build ext c nm ?h1)) (sts_param_names m) =
          get_list ?h1 (param_names c) @ [''P0'']"
    and "sts_k_states m = r_k_states (ssm c)"
    by (rule build_param_names[OF v sep m])+
  with c m pn ks show ?thesis by simp
qed

text \<open>The trend and the error component of the demonstration store, composed and built.\<close>

theorem add_then_build_witness:
  "valid_component pair_store trend_component \<and> valid_component pair_store error_component \<and>
   k_endog trend_component = k_endog error_component \<and>
   distinct (component_names pair_store trend_component @
             component_names pair_store error_component) \<and>
   ''P0'' \<notin> set (dict_keys (get_dict pair_store (name_to_variable trend_component))) \<and>
   ''P0'' \<notin> set (dict_keys (get_dict pair_store (name_to_variable error_component))) \<and>
   (\<exists>c m. fst (add demo_externals trend_component error_component pair_store) = Inr c \<and>
      fst (build demo_externals c None
             (snd (add demo_externals trend_component error_component pair_store))) = Inr m \<and>
      sts_k_states m = 1 \<and>
      get_list (snd (build demo_externals c None
                       (snd (add demo_externals trend_component error_component pair_store))))
        (sts_param_names m) = [''initial_trend'', ''sigma_trend'', ''sigma_Error'', ''P0''])"
proof -
  have e: "k_endog trend_component = k_endog error_component"
    by (simp add: demo_defs)
  have d: "distinct (component_names pair_store trend_component @
                     component_names pair_store error_component)"
    by (simp add: demo_names)
  have p: "get_list pair_store (param_names trend_component) =
             [''initial_trend'', ''sigma_trend'']"
    "get_list pair_store (param_names error_component) = [''sigma_Error'']"
    "k_states trend_component + k_states error_component = 1"
    by (simp_all add: demo_defs get_list_def)
  note t = add_then_build [OF demo_valid(1) demo_valid(2) e d demo_unregistered(1)
      demo_unregistered(2), of demo_externals None]
  from t p have "\<exists>c m. fst (add demo_externals trend_component error_component pair_store) = Inr c \<and>
      fst (build demo_externals c None
             (snd (add demo_externals trend_component error_component pair_store))) = Inr m \<and>
      sts_k_states m = 1 \<and>
      get_list (snd (build demo_externals c None
                       (snd (add demo_externals trend_component error_component pair_store))))
        (sts_param_names m) = [''initial_trend'', ''sigma_trend'', ''sigma_Error'', ''P0'']"
    by auto
  with demo_valid(1,2) e d demo_unregistered show ?thesis by blast
qed

lemmas compose_defs = add_def get_combined_shapes_def combine_statespace_representations_def
  combine_property_list_def combine_property_dict_def combine_component_info_def
  make_combined_name_def startswith_def dict_update_def conform_def not_implemented_def

text \<open>
  C1 as stated fails for two components that carry the same name: two level-and-trend
  components with the default name have equal endogenous-variable counts, and their sum
  raises a ValueError, so there is no model.
\<close>

theorem add_then_build_counterexample:
  "map_sum id k_endog
     (fst (LevelTrendComponent demo_externals (Count 2) None ''LevelTrend'' empty_store)) =
     Inr 1 \<and>
   map_sum id k_endog
     (fst (bind (LevelTrendComponent demo_externals (Count 2) None ''LevelTrend'')
             (\<lambda>a. LevelTrendComponent demo_externals (Count 1) None ''LevelTrend'')
             empty_store)) = Inr 1 \<and>
   fst (bind (LevelTrendComponent demo_externals (Count 2) None ''LevelTrend'')
          (\<lambda>a. bind (LevelTrendComponent demo_externals (Count 1) None ''LevelTrend'')
          (\<lambda>b. bind (add demo_externals a b)
          (\<lambda>c. build demo_externals c None))) empty_store) =
     Inl (ValueError ''Found duplicate component'')"
proof -
  have "map_sum id k_endog
     (fst (LevelTrendComponent demo_externals (Count 2) None ''LevelTrend''
             (extended empty_store [] [] []))) = Inr 1"
    by (simp add: ctor_defs extend_simps Let_def empty_store_lengths demo_externals_def
        numeral_2_eq_2)
  moreover have "map_sum id k_endog
     (fst (bind (LevelTrendComponent demo_externals (Count 2) None ''LevelTrend'')
             (\<lambda>a. LevelTrendComponent demo_externals (Count 1) None ''LevelTrend'')
             (extended empty_store [] [] []))) = Inr 1"
    by (simp add: ctor_defs extend_simps Let_def empty_store_lengths demo_externals_def
        numeral_2_eq_2)
  moreover have "fst (bind (LevelTrendComponent demo_externals (Count 2) None ''LevelTrend'')
          (\<lambda>a. bind (LevelTrendComponent demo_externals (Count 1) None ''LevelTrend'')
          (\<lambda>b. bind (add demo_externals a b)
          (\<lambda>c. build demo_externals c None))) (extended empty_store [] [] [])) =
     Inl (ValueError ''Found duplicate component'')"
    by (simp add: ctor_defs compose_defs extend_simps Let_def empty_store_lengths
        demo_externals_def numeral_2_eq_2)
  ultimately show ?thesis by (simp only: extend_start)
qed

text \<open>
  C8. For every table of derivative names that begins with \<open>level, trend\<close> and in every
  store, \<^verbatim>\<open>(LevelTrendComponent(order=2, innovations_order=1) + MeasurementError()).build()\<close>
  with the default names returns a model with two states, with the parameter names
  \<open>initial_trend, sigma_trend, sigma_MeasurementError, P0\<close> and with the state names
  \<open>level, trend\<close>.
\<close>

theorem level_trend_with_measurement_error:
  assumes "take 2 (POSITION_DERIVATIVE_NAMES ext) = [''level'', ''trend'']"
  shows "\<exists>m h'.
           bind (LevelTrendComponent ext (Count 2) (Some (Count 1)) ''LevelTrend'')
             (\<lambda>a. bind (MeasurementError ext ''MeasurementError'')
             (\<lambda>b. bind (add ext a b)
             (\<lambda>c. build ext c None))) h = (Inr m, h') \<and>
           sts_k_states m = 2 \<and>
           get_list h' (sts_param_names m) =
             [''initial_trend'', ''sigma_trend'', ''sigma_MeasurementError'', ''P0''] \<and>
           {''initial_trend'', ''sigma_trend'', ''sigma_MeasurementError'', ''P0''}
             \<subseteq> set (get_list h' (sts_param_names m)) \<and>
           get_list h' (sts_state_names m) = [''level'', ''trend'']"
proof -
  have "\<exists>m h'.
           bind (LevelTrendComponent ext (Count 2) (Some (Count 1)) ''LevelTrend'')
             (\<lambda>a. bind (MeasurementError ext ''MeasurementError'')
             (\<lambda>b. bind (add ext a b)
             (\<lambda>c. build ext c None))) (extended h [] [] []) = (Inr m, h') \<and>
           sts_k_states m = 2 \<and>
           get_list h' (sts_param_names m) =
             [''initial_trend'', ''sigma_trend'', ''sigma_MeasurementError'', ''P0''] \<and>
           {''initial_trend'', ''sigma_trend'', ''sigma_MeasurementError'', ''P0''}
             \<subseteq> set (get_list h' (sts_param_names m)) \<and>
           get_list h' (sts_state_names m) = [''level'', ''trend'']"
    using assms
    by (simp add: ctor_defs compose_defs build_defs extend_simps Let_def numeral_2_eq_2)
  then show ?thesis by (simp only: extend_start)
qed

text \<open>The example with the demonstration table of derivative names, in the empty store.\<close>

theorem level_trend_with_measurement_error_witness:
  "take 2 (POSITION_DERIVATIVE_NAMES demo_externals) = [''level'', ''trend''] \<and>
   (\<exists>m h'.
      bind (LevelTrendComponent demo_externals (Count 2) (Some (Count 1)) ''LevelTrend'')
        (\<lambda>a. bind (MeasurementError demo_externals ''MeasurementError'')
        (\<lambda>b. bind (add demo_externals a b)
        (\<lambda>c. build demo_externals c None))) empty_store = (Inr m, h') \<and>
      sts_k_states m = 2 \<and>
      get_list h' (sts_param_names m) =
        [''initial_trend'', ''sigma_trend'', ''sigma_MeasurementError'', ''P0''] \<and>
      get_list h' (sts_state_names m) = [''level'', ''trend''])"
proof -
  have p: "take 2 (POSITION_DERIVATIVE_NAMES demo_externals) = [''level'', ''trend'']"
    by (simp add: demo_externals_def)
  from level_trend_with_measurement_error [OF p, of empty_store] p show ?thesis
    by blast
qed

text \<open>
  C6 as stated fails for two operands that carry the same name: two measurement-error
  components with the default name both have one endogenous variable, and their sum
  raises a ValueError, so there is no composed component.
\<close>

theorem add_duplicate_name_counterexample:
  "map_sum id k_endog
     (fst (MeasurementError demo_externals ''MeasurementError'' empty_store)) = Inr 1 \<and>
   map_sum id k_endog
     (fst (bind (MeasurementError demo_externals ''MeasurementError'')
             (\<lambda>a. MeasurementError demo_externals ''MeasurementError'') empty_store)) =
     Inr 1 \<and>
   fst (bind (MeasurementError demo_externals ''MeasurementError'')
          (\<lambda>a. bind (MeasurementError demo_externals ''MeasurementError'')
          (\<lambda>b. add demo_externals a b)) empty_store) =
     Inl (ValueError ''Found duplicate component'')"
proof -
  have "map_sum id k_endog
     (fst (MeasurementError demo_externals ''MeasurementError''
             (extended empty_store [] [] []))) = Inr 1"
    by (simp add: ctor_defs extend_simps Let_def empty_store_lengths demo_externals_def)
  moreover have "map_sum id k_endog
     (fst (bind (MeasurementError demo_externals ''MeasurementError'')
             (\<lambda>a. MeasurementError demo_externals ''MeasurementError'')
             (extended empty_store [] [] []))) = Inr 1"
    by (simp add: ctor_defs extend_simps Let_def empty_store_lengths demo_externals_def)
  moreover have "fst (bind (MeasurementError demo_externals ''MeasurementError'')
          (\<lambda>a. bind (MeasurementError demo_externals ''MeasurementError'')
          (\<lambda>b. add demo_externals a b)) (extended empty_store [] [] [])) =
     Inl (ValueError ''Found duplicate component'')"
    by (simp add: ctor_defs compose_defs extend_simps Let_def empty_store_lengths
        demo_externals_def)
  ultimately show ?thesis by (simp only: extend_start)
qed

subsection \<open>Placeholder registration\<close>



end
